theory Spec2Isabelle
  imports Main "HOL-Library.Sublist"
begin

section \<open>Strings as the TypeScript code uses them\<close>

text \<open>
  Strings are lists of characters. The model covers ASCII text: \<open>toUpperCase\<close> and
  \<open>toLowerCase\<close> change the 26 Latin letters and leave every other character alone.
\<close>

definition isUpperAscii :: "char \<Rightarrow> bool" where
  "isUpperAscii c = (65 \<le> (of_char c :: nat) \<and> (of_char c :: nat) \<le> 90)"

definition isLowerAscii :: "char \<Rightarrow> bool" where
  "isLowerAscii c = (97 \<le> (of_char c :: nat) \<and> (of_char c :: nat) \<le> 122)"

definition isDigitAscii :: "char \<Rightarrow> bool" where
  "isDigitAscii c = (48 \<le> (of_char c :: nat) \<and> (of_char c :: nat) \<le> 57)"

definition isSpaceChar :: "char \<Rightarrow> bool" where
  "isSpaceChar c = ((of_char c :: nat) = 9 \<or> (of_char c :: nat) = 10 \<or> (of_char c :: nat) = 11
     \<or> (of_char c :: nat) = 12 \<or> (of_char c :: nat) = 13 \<or> (of_char c :: nat) = 32)"

definition toUpperChar :: "char \<Rightarrow> char" where
  "toUpperChar c = (if isLowerAscii c then char_of ((of_char c :: nat) - 32) else c)"

definition toLowerChar :: "char \<Rightarrow> char" where
  "toLowerChar c = (if isUpperAscii c then char_of ((of_char c :: nat) + 32) else c)"

definition toUpperCase :: "string \<Rightarrow> string" where
  "toUpperCase s = map toUpperChar s"

definition toLowerCase :: "string \<Rightarrow> string" where
  "toLowerCase s = map toLowerChar s"

text \<open>\<open>s.includes(sub)\<close>: \<open>sub\<close> occurs in \<open>s\<close> as a contiguous run.\<close>

fun str_includes :: "string \<Rightarrow> string \<Rightarrow> bool" where
  "str_includes [] sub = (sub = [])"
| "str_includes (x # xs) sub = (prefix sub (x # xs) \<or> str_includes xs sub)"

text \<open>\<open>s.split(d)\<close> for a one-character separator: \<open>''''.split('/')\<close> is \<open>['''']\<close>.\<close>

fun split_on :: "char \<Rightarrow> string \<Rightarrow> string list" where
  "split_on d [] = [[]]"
| "split_on d (x # xs) =
     (if x = d then [] # split_on d xs
      else (case split_on d xs of [] \<Rightarrow> [[x]] | w # ws \<Rightarrow> (x # w) # ws))"

text \<open>\<open>parts.join(sep)\<close>.\<close>

fun join :: "string \<Rightarrow> string list \<Rightarrow> string" where
  "join sep [] = []"
| "join sep [p] = p"
| "join sep (p # q # ps) = p @ sep @ join sep (q # ps)"

text \<open>\<open>s.trim()\<close>.\<close>

definition trim :: "string \<Rightarrow> string" where
  "trim s = rev (dropWhile isSpaceChar (rev (dropWhile isSpaceChar s)))"

text \<open>
  \<open>part.replace(/[{}:]/g, '''')\<close>: a global replace of a one-character class by the empty
  string deletes exactly the characters of the class.
\<close>

definition stripParamChars :: "string \<Rightarrow> string" where
  "stripParamChars s = filter (\<lambda>c. c \<noteq> CHR ''{'' \<and> c \<noteq> CHR ''}'' \<and> c \<noteq> CHR '':'') s"

text \<open>\<open>s.charAt(0).toUpperCase() + s.slice(1).toLowerCase()\<close>.\<close>

definition capitalize :: "string \<Rightarrow> string" where
  "capitalize s = toUpperCase (take 1 s) @ toLowerCase (drop 1 s)"

section \<open>Regular expressions\<close>

text \<open>
  The analyzers are tables of JavaScript regular expressions. They are embedded as data
  and run by a backtracking matcher that lists the ways a pattern can match at the head
  of a string, in the priority order of the JavaScript engine: the left alternative
  first, the longest repetition first. The first entry is the match JavaScript reports.
  A repetition does not iterate on an empty match.

  \<^item> \<open>Atom False items\<close> is a literal character or a class \<open>[...]\<close>, \<open>Atom True items\<close> a
    negated class \<open>[^...]\<close>; the items are characters, ranges \<open>a-z\<close>, and the escapes
    \<open>\s\<close> (\<open>CSpace\<close>, the ASCII white space), \<open>\w\<close> (\<open>CWord\<close>) and \<open>\d\<close> (\<open>CDigit\<close>);
  \<^item> \<open>AnyChar\<close> is the dot, which takes any character but a line end;
  \<^item> \<open>Eos\<close> is \<open>$\<close>; \<open>Seq\<close> is juxtaposition, \<open>Alt\<close> is \<open>|\<close>, \<open>Star\<close> is \<open>*\<close>;
  \<^item> \<open>Group n r\<close> is the \<open>n\<close>-th capturing group \<open>(r)\<close>; a group \<open>(?:r)\<close> is \<open>r\<close> itself;
  \<^item> \<open>Lit s\<close> is a run of literal characters, \<open>Plus r\<close> is \<open>r+\<close>, \<open>Opt r\<close> is \<open>r?\<close>,
    \<open>Seqs\<close> and \<open>Alts\<close> are \<open>Seq\<close> and \<open>Alt\<close> over a list.
\<close>

datatype citem = CChar char | CRange char char | CSpace | CWord | CDigit

datatype rx =
    Eps
  | Atom bool "citem list"
  | AnyChar
  | Eos
  | Seq rx rx
  | Alt rx rx
  | Star rx
  | Group nat rx

fun citem_has :: "citem \<Rightarrow> char \<Rightarrow> bool" where
  "citem_has (CChar d) c = (c = d)"
| "citem_has (CRange a b) c = ((of_char a :: nat) \<le> of_char c \<and> (of_char c :: nat) \<le> of_char b)"
| "citem_has CSpace c = isSpaceChar c"
| "citem_has CWord c = (isUpperAscii c \<or> isLowerAscii c \<or> isDigitAscii c \<or> c = CHR ''_'')"
| "citem_has CDigit c = isDigitAscii c"

definition class_has :: "citem list \<Rightarrow> char \<Rightarrow> bool" where
  "class_has items c = list_ex (\<lambda>i. citem_has i c) items"

text \<open>
  \<open>Atom neg items\<close> is a character class, negated when \<open>neg\<close> holds; under the \<open>i\<close> flag
  a character matches when either of its two cases is in the class.
\<close>

definition cmatch :: "bool \<Rightarrow> bool \<Rightarrow> citem list \<Rightarrow> char \<Rightarrow> bool" where
  "cmatch ic neg items c =
     ((if ic then class_has items (toUpperChar c) \<or> class_has items (toLowerChar c)
       else class_has items c) \<noteq> neg)"

type_synonym caps = "(nat \<times> string) list"

function rmatch :: "bool \<Rightarrow> rx \<Rightarrow> string \<Rightarrow> caps \<Rightarrow> (string \<times> caps) list" where
  "rmatch ic Eps s c = [(s, c)]"
| "rmatch ic (Atom neg items) s c =
     (case s of [] \<Rightarrow> [] | x # xs \<Rightarrow> if cmatch ic neg items x then [(xs, c)] else [])"
| "rmatch ic AnyChar s c =
     (case s of [] \<Rightarrow> []
      | x # xs \<Rightarrow> if x = CHR 0x0A \<or> x = CHR 0x0D then [] else [(xs, c)])"
| "rmatch ic Eos s c = (if s = [] then [(s, c)] else [])"
| "rmatch ic (Seq r1 r2) s c =
     concat (map (\<lambda>(s', c'). rmatch ic r2 s' c') (rmatch ic r1 s c))"
| "rmatch ic (Alt r1 r2) s c = rmatch ic r1 s c @ rmatch ic r2 s c"
| "rmatch ic (Star r) s c =
     concat (map (\<lambda>(s', c'). if length s' < length s then rmatch ic (Star r) s' c' else [])
                 (rmatch ic r s c)) @ [(s, c)]"
| "rmatch ic (Group n r) s c =
     map (\<lambda>(s', c'). (s', (n, take (length s - length s') s) # c')) (rmatch ic r s c)"
  by pat_completeness auto
termination
  by (relation "inv_image (less_than <*lex*> less_than) (\<lambda>(ic, r, s, c). (size r, length s))")
    auto

definition Lit :: "string \<Rightarrow> rx" where
  "Lit s = foldr (\<lambda>ch r. Seq (Atom False [CChar ch]) r) s Eps"

definition Plus :: "rx \<Rightarrow> rx" where
  "Plus r = Seq r (Star r)"

definition Opt :: "rx \<Rightarrow> rx" where
  "Opt r = Alt r Eps"

definition Seqs :: "rx list \<Rightarrow> rx" where
  "Seqs rs = foldr Seq rs Eps"

fun Alts :: "rx list \<Rightarrow> rx" where
  "Alts [] = Atom False []"
| "Alts [r] = r"
| "Alts (r # q # rs) = Alt r (Alts (q # rs))"

text \<open>
  One match: where it starts (\<open>match.index\<close>), its text (\<open>match[0]\<close>) and its capture
  groups (\<open>match[n]\<close>, \<open>undefined\<close> when the group took no part).
\<close>

record rmatch_result =
  m_index :: nat
  m_text :: string
  m_caps :: caps

definition cap :: "rmatch_result \<Rightarrow> nat \<Rightarrow> string option" where
  "cap m n = map_of (m_caps m) n"

text \<open>
  \<open>scan\<close> walks the subject once. With skip count 0 it tries the pattern at the current
  position; after a match of \<open>n\<close> characters the next attempt is \<open>n\<close> characters on (one
  character on after an empty match). This is the sequence of results of
  \<open>while ((match = pattern.exec(s)) !== null)\<close> for a \<open>g\<close> pattern that cannot match the
  empty string, and of \<open>s.match(pattern)\<close> with the \<open>g\<close> flag.
\<close>

fun scan :: "bool \<Rightarrow> rx \<Rightarrow> nat \<Rightarrow> nat \<Rightarrow> string \<Rightarrow> rmatch_result list" where
  "scan ic r i (Suc k) [] = []"
| "scan ic r i (Suc k) (x # xs) = scan ic r (Suc i) k xs"
| "scan ic r i 0 [] =
     (case rmatch ic r [] [] of [] \<Rightarrow> []
      | (rest, c) # _ \<Rightarrow> [\<lparr>m_index = i, m_text = [], m_caps = c\<rparr>])"
| "scan ic r i 0 (x # xs) =
     (case rmatch ic r (x # xs) [] of [] \<Rightarrow> scan ic r (Suc i) 0 xs
      | (rest, c) # _ \<Rightarrow>
          (let n = length (x # xs) - length rest
           in \<lparr>m_index = i, m_text = take n (x # xs), m_caps = c\<rparr>
                # scan ic r (Suc i) (n - 1) xs))"

definition execAll :: "bool \<Rightarrow> rx \<Rightarrow> string \<Rightarrow> rmatch_result list" where
  "execAll ic r s = scan ic r 0 0 s"

text \<open>\<open>s.match(pattern)\<close> without the \<open>g\<close> flag: the leftmost match, if any.\<close>

fun search :: "bool \<Rightarrow> rx \<Rightarrow> nat \<Rightarrow> string \<Rightarrow> rmatch_result option" where
  "search ic r i [] =
     (case rmatch ic r [] [] of [] \<Rightarrow> None
      | (rest, c) # _ \<Rightarrow> Some \<lparr>m_index = i, m_text = [], m_caps = c\<rparr>)"
| "search ic r i (x # xs) =
     (case rmatch ic r (x # xs) [] of [] \<Rightarrow> search ic r (Suc i) xs
      | (rest, c) # _ \<Rightarrow>
          Some \<lparr>m_index = i, m_text = take (length (x # xs) - length rest) (x # xs), m_caps = c\<rparr>)"

definition matchFirst :: "bool \<Rightarrow> rx \<Rightarrow> string \<Rightarrow> rmatch_result option" where
  "matchFirst ic r s = search ic r 0 s"

text \<open>
  \<open>s.replace(pattern, f)\<close>: with the \<open>g\<close> flag every match is replaced, without it the
  leftmost one only. The replacement is a function of the match; the replacements of this
  program read the groups only, and the global replace leaves the index at 0.
\<close>

fun replaceScan :: "bool \<Rightarrow> rx \<Rightarrow> (rmatch_result \<Rightarrow> string) \<Rightarrow> nat \<Rightarrow> string \<Rightarrow> string" where
  "replaceScan ic r f (Suc k) [] = []"
| "replaceScan ic r f (Suc k) (x # xs) = replaceScan ic r f k xs"
| "replaceScan ic r f 0 [] =
     (case rmatch ic r [] [] of [] \<Rightarrow> []
      | (rest, c) # _ \<Rightarrow> f \<lparr>m_index = 0, m_text = [], m_caps = c\<rparr>)"
| "replaceScan ic r f 0 (x # xs) =
     (case rmatch ic r (x # xs) [] of [] \<Rightarrow> x # replaceScan ic r f 0 xs
      | (rest, c) # _ \<Rightarrow>
          (let n = length (x # xs) - length rest
           in f \<lparr>m_index = 0, m_text = take n (x # xs), m_caps = c\<rparr>
                @ (if n = 0 then [x] else []) @ replaceScan ic r f (n - 1) xs))"

definition replaceAll :: "bool \<Rightarrow> rx \<Rightarrow> (rmatch_result \<Rightarrow> string) \<Rightarrow> string \<Rightarrow> string" where
  "replaceAll ic r f s = replaceScan ic r f 0 s"

definition replaceFirst :: "bool \<Rightarrow> rx \<Rightarrow> (rmatch_result \<Rightarrow> string) \<Rightarrow> string \<Rightarrow> string" where
  "replaceFirst ic r f s =
     (case matchFirst ic r s of None \<Rightarrow> s
      | Some m \<Rightarrow> take (m_index m) s @ f m @ drop (m_index m + length (m_text m)) s)"

text \<open>The value of \<open>$n\<close> in a replacement string: the empty string for an unset group.\<close>

definition group_text :: "rmatch_result \<Rightarrow> nat \<Rightarrow> string" where
  "group_text m n = (case cap m n of None \<Rightarrow> [] | Some t \<Rightarrow> t)"

text \<open>Building blocks shared by the pattern tables: \<open>['"`]\<close>, \<open>[^'"`]\<close>, \<open>\s\<close>.\<close>

definition quoteChar :: rx where
  "quoteChar = Atom False [CChar (CHR 0x27), CChar (CHR 0x22), CChar (CHR 0x60)]"

definition notQuoteChar :: rx where
  "notQuoteChar = Atom True [CChar (CHR 0x27), CChar (CHR 0x22), CChar (CHR 0x60)]"

definition ws :: rx where
  "ws = Atom False [CSpace]"

definition httpVerbAlts :: rx where
  "httpVerbAlts = Alts [Lit ''get'', Lit ''post'', Lit ''put'', Lit ''patch'', Lit ''delete'',
     Lit ''options'', Lit ''head'']"

section \<open>Data model (types.ts)\<close>

text \<open>
  An optional field is an \<open>option\<close>. The optional \<open>responses\<close> and \<open>tags\<close> of an endpoint,
  which only the OpenAPI analyzer fills, are left out.
\<close>

record Parameter =
  p_name :: string
  p_type :: string
  p_required :: bool
  p_description :: "string option"
  p_in :: "string option"

record EndpointInfo =
  e_path :: string
  e_method :: string
  e_description :: "string option"
  e_parameters :: "Parameter list"

record ProjectInfo =
  pi_name :: string
  pi_type :: string
  pi_rootPath :: string
  pi_endpoints :: "EndpointInfo list"
  pi_baseUrl :: "string option"
  pi_version :: "string option"
  pi_description :: "string option"

section \<open>Deduplication (RESTAnalyzer and NodeJSAnalyzer)\<close>

text \<open>The key \<open>`${endpoint.method}:${endpoint.path}`\<close>.\<close>

definition endpointKey :: "EndpointInfo \<Rightarrow> string" where
  "endpointKey e = e_method e @ '':'' @ e_path e"

text \<open>
  \<open>endpoints.filter(...)\<close> with the \<open>seen\<close> set threaded through the callback: an
  endpoint whose key was seen is dropped, any other is kept and its key recorded.
\<close>

fun dedupFilter :: "string set \<Rightarrow> EndpointInfo list \<Rightarrow> EndpointInfo list" where
  "dedupFilter seen [] = []"
| "dedupFilter seen (e # es) =
     (if endpointKey e \<in> seen then dedupFilter seen es
      else e # dedupFilter (insert (endpointKey e) seen) es)"

definition rest_deduplicateEndpoints :: "EndpointInfo list \<Rightarrow> EndpointInfo list" where
  "rest_deduplicateEndpoints endpoints = dedupFilter {} endpoints"

definition node_deduplicateEndpoints :: "EndpointInfo list \<Rightarrow> EndpointInfo list" where
  "node_deduplicateEndpoints endpoints = dedupFilter {} endpoints"

section \<open>RESTAnalyzer: helpers\<close>

definition mkEndpoint :: "string \<Rightarrow> string \<Rightarrow> string \<Rightarrow> Parameter list \<Rightarrow> EndpointInfo" where
  "mkEndpoint path method description parameters =
     \<lparr>e_path = path, e_method = method, e_description = Some description,
      e_parameters = parameters\<rparr>"

text \<open>\<^verbatim>\<open>/[{:]([^}/:]+)[}]?/g\<close>\<close>

definition pathParamRx :: rx where
  "pathParamRx = Seqs [Atom False [CChar (CHR ''{''), CChar (CHR '':'')],
     Group 1 (Plus (Atom True [CChar (CHR ''}''), CChar (CHR ''/''), CChar (CHR '':'')])),
     Opt (Atom False [CChar (CHR ''}'')])]"

definition extractParametersFromPath :: "string \<Rightarrow> Parameter list" where
  "extractParametersFromPath path =
     map (\<lambda>m. let paramName = stripParamChars (m_text m)
              in \<lparr>p_name = paramName, p_type = ''string'', p_required = True,
                  p_description = Some (''Path parameter: '' @ paramName),
                  p_in = Some ''path''\<rparr>)
         (execAll False pathParamRx path)"

text \<open>
  \<^verbatim>\<open>/(?:pages|src\/pages)\/api\/(.+)\.[jt]sx?$/\<close>, \<^verbatim>\<open>/\[([^\]]+)\]/g\<close> and
  \<^verbatim>\<open>/\/index$/\<close>
\<close>

definition nextApiFileRx :: rx where
  "nextApiFileRx = Seqs [Alt (Lit ''pages'') (Lit ''src/pages''), Lit ''/api/'',
     Group 1 (Plus AnyChar), Lit ''.'', Atom False [CChar (CHR ''j''), CChar (CHR ''t'')],
     Lit ''s'', Opt (Lit ''x''), Eos]"

definition bracketSegmentRx :: rx where
  "bracketSegmentRx = Seqs [Lit ''['', Group 1 (Plus (Atom True [CChar (CHR '']'')])), Lit '']'']"

definition trailingIndexRx :: rx where
  "trailingIndexRx = Seqs [Lit ''/index'', Eos]"

definition inferNextJsApiPath :: "string \<Rightarrow> string" where
  "inferNextJsApiPath filename =
     (case matchFirst False nextApiFileRx filename of
        Some apiMatch \<Rightarrow>
          (let apiPath = ''/api/'' @
                 replaceFirst False trailingIndexRx (\<lambda>m. [])
                   (replaceAll False bracketSegmentRx (\<lambda>m. ''{'' @ group_text m 1 @ ''}'')
                      (group_text apiMatch 1))
           in if apiPath = ''/api/'' then ''/api'' else apiPath)
      | None \<Rightarrow> ''/api/unknown'')"

text \<open>
  \<^verbatim>\<open>/req\.method\s*===?\s*['\"](GET|POST|PUT|PATCH|DELETE|OPTIONS|HEAD)[\"']/gi\<close> finds
  the method checks. The method name is then taken from each check with
  \<^verbatim>\<open>/['\"](\\w+)['\"]/i\<close>: in a regular-expression literal a doubled backslash is an
  escaped backslash, so the group is a backslash followed by one or more letters w.
\<close>

definition dqOrSq :: rx where
  "dqOrSq = Atom False [CChar (CHR 0x27), CChar (CHR 0x22)]"

definition methodCheckRx :: rx where
  "methodCheckRx = Seqs [Lit ''req.method'', Star ws, Lit ''=='', Opt (Lit ''=''), Star ws, dqOrSq,
     Group 1 (Alts [Lit ''GET'', Lit ''POST'', Lit ''PUT'', Lit ''PATCH'', Lit ''DELETE'',
       Lit ''OPTIONS'', Lit ''HEAD'']),
     Atom False [CChar (CHR 0x22), CChar (CHR 0x27)]]"

definition quotedWordRx :: rx where
  "quotedWordRx = Seqs [dqOrSq, Group 1 (Seq (Lit [CHR 0x5C]) (Plus (Lit ''w''))), dqOrSq]"

definition extractMethodsFromNextJsHandler :: "string \<Rightarrow> string list" where
  "extractMethodsFromNextJsHandler functionBody =
     (let methodChecks = map m_text (execAll True methodCheckRx functionBody);
          methods = concat (map (\<lambda>check.
                      (case matchFirst True quotedWordRx check of
                         None \<Rightarrow> []
                       | Some methodMatch \<Rightarrow> [toUpperCase (group_text methodMatch 1)]))
                    methodChecks)
      in if methods \<noteq> [] then methods else [''GET'', ''POST''])"

text \<open>
  \<open>normalizeDjangoPath\<close>: \<^verbatim>\<open>/\(\?P<([^>]+)>[^)]+\)/g\<close>, \<^verbatim>\<open>/\\d\+/g\<close>,
  \<^verbatim>\<open>/\^|\$/g\<close>, \<^verbatim>\<open>/\/+/g\<close>.
\<close>

definition djangoNamedGroupRx :: rx where
  "djangoNamedGroupRx = Seqs [Lit ''(?P<'', Group 1 (Plus (Atom True [CChar (CHR ''>'')])), Lit ''>'',
     Plus (Atom True [CChar (CHR '')'')]), Lit '')'']"

definition djangoDigitsRx :: rx where
  "djangoDigitsRx = Lit [CHR 0x5C, CHR ''d'', CHR ''+'']"

definition djangoAnchorRx :: rx where
  "djangoAnchorRx = Alt (Lit ''^'') (Lit ''$'')"

definition slashesRx :: rx where
  "slashesRx = Plus (Lit ''/'')"

definition normalizeDjangoPath :: "string \<Rightarrow> string" where
  "normalizeDjangoPath path =
     replaceAll False slashesRx (\<lambda>m. ''/'')
       (replaceAll False djangoAnchorRx (\<lambda>m. [])
         (replaceAll False djangoDigitsRx (\<lambda>m. ''{id}'')
           (replaceAll False djangoNamedGroupRx (\<lambda>m. ''{'' @ group_text m 1 @ ''}'') path)))"

definition http_methods :: "string list" where
  "http_methods = [''GET'', ''POST'', ''PUT'', ''PATCH'', ''DELETE'', ''OPTIONS'', ''HEAD'']"

text \<open>The loop returns at the first method of the list found in the upper-cased match.\<close>

definition extractMethodFromMatch :: "string \<Rightarrow> string" where
  "extractMethodFromMatch matchStr =
     (let upperMatch = toUpperCase matchStr
      in case List.find (\<lambda>method. str_includes upperMatch method) http_methods of
           Some method \<Rightarrow> method
         | None \<Rightarrow> ''GET'')"

definition annotation_mapping :: "(string \<times> string) list" where
  "annotation_mapping = [(''GetMapping'', ''GET''), (''PostMapping'', ''POST''),
     (''PutMapping'', ''PUT''), (''PatchMapping'', ''PATCH''), (''DeleteMapping'', ''DELETE'')]"

definition extractMethodFromAnnotation :: "string \<Rightarrow> string" where
  "extractMethodFromAnnotation annotation =
     (case List.find (\<lambda>(ann, method). str_includes annotation ann) annotation_mapping of
        Some (ann, method) \<Rightarrow> method
      | None \<Rightarrow> ''GET'')"

text \<open>\<open>method || 'GET'\<close>: the empty string is falsy.\<close>

definition orGET :: "string \<Rightarrow> string" where
  "orGET method = (if method = [] then ''GET'' else method)"

text \<open>
  Every extractor runs its patterns in table order and, for each pattern, handles the
  matches in text order: \<open>patterns.forEach((pattern, index) => { while (exec) ... })\<close>.
  A table entry is the pattern with its \<open>i\<close> flag.
\<close>

definition forEachMatch ::
  "(bool \<times> rx) list \<Rightarrow> string \<Rightarrow> (nat \<Rightarrow> rmatch_result \<Rightarrow> EndpointInfo list) \<Rightarrow> EndpointInfo list" where
  "forEachMatch patterns content body =
     concat (map (\<lambda>(index, (ic, pattern)). concat (map (body index) (execAll ic pattern content)))
                 (enumerate 0 patterns))"

section \<open>RESTAnalyzer: JavaScript and TypeScript\<close>

text \<open>
  \<^item> \<^verbatim>\<open>/(?:app|router|server)\.(?:get|post|put|patch|delete|options|head)\s*\(\s*['"`]([^'"`]+)['"`]/g\<close>
  \<^item> \<^verbatim>\<open>/@(?:Get|Post|Put|Patch|Delete|Options|Head)\s*\(\s*['"`]([^'"`]+)['"`]/gi\<close>
  \<^item> \<^verbatim>\<open>/server\.route\s*\(\s*\{\s*method:\s*['"`]([^'"`]+)['"`][^}]*path:\s*['"`]([^'"`]+)['"`]/gs\<close>
  \<^item> \<^verbatim>\<open>/export\s+(?:default\s+)?(?:async\s+)?function\s+(?:handler|\w+)\s*\([^)]*req[^)]*\)/g\<close>
\<close>

definition quotedPath :: "nat \<Rightarrow> rx" where
  "quotedPath n = Seqs [quoteChar, Group n (Plus notQuoteChar), quoteChar]"

definition js_patterns :: "(bool \<times> rx) list" where
  "js_patterns =
    [(False, Seqs [Alts [Lit ''app'', Lit ''router'', Lit ''server''], Lit ''.'', httpVerbAlts,
        Star ws, Lit ''('', Star ws, quotedPath 1]),
     (True, Seqs [Lit ''@'', Alts [Lit ''Get'', Lit ''Post'', Lit ''Put'', Lit ''Patch'',
        Lit ''Delete'', Lit ''Options'', Lit ''Head''], Star ws, Lit ''('', Star ws, quotedPath 1]),
     (False, Seqs [Lit ''server.route'', Star ws, Lit ''('', Star ws, Lit ''{'', Star ws,
        Lit ''method:'', Star ws, quotedPath 1, Star (Atom True [CChar (CHR ''}'')]),
        Lit ''path:'', Star ws, quotedPath 2]),
     (False, Seqs [Lit ''export'', Plus ws, Opt (Seq (Lit ''default'') (Plus ws)),
        Opt (Seq (Lit ''async'') (Plus ws)), Lit ''function'', Plus ws,
        Alt (Lit ''handler'') (Plus (Atom False [CWord])), Star ws, Lit ''('',
        Star (Atom True [CChar (CHR '')'')]), Lit ''req'', Star (Atom True [CChar (CHR '')'')]),
        Lit '')''])]"

definition js_match_body :: "string \<Rightarrow> string \<Rightarrow> nat \<Rightarrow> rmatch_result \<Rightarrow> EndpointInfo list" where
  "js_match_body content filename index m =
     (if index = 2 then
        (let method = toUpperCase (group_text m 1); path = group_text m 2
         in [mkEndpoint path method (''Hapi.js endpoint from '' @ filename)
               (extractParametersFromPath path)])
      else if index = 3 then
        (let apiPath = inferNextJsApiPath filename;
             methods = extractMethodsFromNextJsHandler content
         in map (\<lambda>method. mkEndpoint apiPath method (''Next.js API route from '' @ filename)
                   (extractParametersFromPath apiPath)) methods)
      else
        (let method = extractMethodFromMatch (m_text m); path = group_text m 1
         in [mkEndpoint path (orGET method) (''Endpoint from '' @ filename)
               (extractParametersFromPath path)]))"

definition extractJavaScriptEndpoints :: "string \<Rightarrow> string \<Rightarrow> EndpointInfo list" where
  "extractJavaScriptEndpoints content filename =
     forEachMatch js_patterns content (js_match_body content filename)"

section \<open>RESTAnalyzer: Python\<close>

text \<open>
  \<^item> \<^verbatim>\<open>/@app\.route\s*\(\s*['"`]([^'"`]+)['"`](?:,\s*methods\s*=\s*\[([^\]]+)\])?\)/g\<close>
  \<^item> \<^verbatim>\<open>/(?:path|url|re_path)\s*\(\s*r?['"`]([^'"`]+)['"`]/g\<close>
  \<^item> \<^verbatim>\<open>/@(?:app\.)?(get|post|put|patch|delete|options|head)\s*\(\s*['"`]([^'"`]+)['"`]/gi\<close>
  \<^item> \<^verbatim>\<open>/class\s+(\w+ViewSet|\w+View)\s*\([^)]*\):/g\<close>
\<close>

definition py_patterns :: "(bool \<times> rx) list" where
  "py_patterns =
    [(False, Seqs [Lit ''@app.route'', Star ws, Lit ''('', Star ws, quotedPath 1,
        Opt (Seqs [Lit '','', Star ws, Lit ''methods'', Star ws, Lit ''='', Star ws, Lit ''['',
                   Group 2 (Plus (Atom True [CChar (CHR '']'')])), Lit '']'']),
        Lit '')'']),
     (False, Seqs [Alts [Lit ''path'', Lit ''url'', Lit ''re_path''], Star ws, Lit ''('', Star ws,
        Opt (Lit ''r''), quotedPath 1]),
     (True, Seqs [Lit ''@'', Opt (Lit ''app.''), Group 1 httpVerbAlts, Star ws, Lit ''('', Star ws,
        quotedPath 2]),
     (False, Seqs [Lit ''class'', Plus ws,
        Group 1 (Alt (Seq (Plus (Atom False [CWord])) (Lit ''ViewSet''))
                     (Seq (Plus (Atom False [CWord])) (Lit ''View''))),
        Star ws, Lit ''('', Star (Atom True [CChar (CHR '')'')]), Lit ''):''])]"

text \<open>\<^verbatim>\<open>methodsStr.replace(/['"\s]/g, '').split(',')\<close>\<close>

definition flaskMethods :: "string \<Rightarrow> string list" where
  "flaskMethods methodsStr =
     split_on (CHR '','')
       (filter (\<lambda>c. c \<noteq> CHR 0x27 \<and> c \<noteq> CHR 0x22 \<and> \<not> isSpaceChar c) methodsStr)"

text \<open>\<^verbatim>\<open>viewName.replace(/ViewSet|View/i, '')\<close>: the leftmost occurrence, in any case.\<close>

definition viewSuffixRx :: rx where
  "viewSuffixRx = Alt (Lit ''ViewSet'') (Lit ''View'')"

definition crudEndpoints :: "string \<Rightarrow> (string \<times> string \<times> string) list" where
  "crudEndpoints basePath =
     [(''GET'', basePath, ''List''),
      (''POST'', basePath, ''Create''),
      (''GET'', basePath @ ''{id}/'', ''Retrieve''),
      (''PUT'', basePath @ ''{id}/'', ''Update''),
      (''PATCH'', basePath @ ''{id}/'', ''Partial Update''),
      (''DELETE'', basePath @ ''{id}/'', ''Delete'')]"

definition py_match_body :: "string \<Rightarrow> nat \<Rightarrow> rmatch_result \<Rightarrow> EndpointInfo list" where
  "py_match_body filename index m =
     (if index = 0 then
        (let path = group_text m 1;
             methods = (case cap m 2 of
                          None \<Rightarrow> [''GET'']
                        | Some methodsStr \<Rightarrow>
                            if methodsStr = [] then [''GET''] else flaskMethods methodsStr)
         in map (\<lambda>method. mkEndpoint path (toUpperCase (trim method))
                   (''Flask endpoint from '' @ filename) (extractParametersFromPath path)) methods)
      else if index = 1 then
        (let path = normalizeDjangoPath (group_text m 1)
         in [mkEndpoint path ''GET'' (''Django endpoint from '' @ filename)
               (extractParametersFromPath path)])
      else if index = 2 then
        (let method = toUpperCase (group_text m 1); path = group_text m 2
         in [mkEndpoint path method (''FastAPI endpoint from '' @ filename)
               (extractParametersFromPath path)])
      else if index = 3 then
        (let viewName = group_text m 1;
             basePath = ''/'' @ toLowerCase (replaceFirst True viewSuffixRx (\<lambda>m. []) viewName) @ ''/''
         in map (\<lambda>(method, path, description).
                   mkEndpoint path method (''DRF '' @ viewName @ '' - '' @ description)
                     (extractParametersFromPath path))
                (crudEndpoints basePath))
      else [])"

definition extractPythonEndpoints :: "string \<Rightarrow> string \<Rightarrow> EndpointInfo list" where
  "extractPythonEndpoints content filename =
     forEachMatch py_patterns content (py_match_body filename)"

section \<open>RESTAnalyzer: Java, Go, PHP, Ruby, C\#, Rust\<close>

text \<open>
  \<^verbatim>\<open>/@(?:RequestMapping|GetMapping|PostMapping|PutMapping|PatchMapping|DeleteMapping)\s*\(\s*(?:value\s*=\s*)?['"`]([^'"`]+)['"`]/g\<close>
\<close>

definition java_patterns :: "(bool \<times> rx) list" where
  "java_patterns =
    [(False, Seqs [Lit ''@'', Alts [Lit ''RequestMapping'', Lit ''GetMapping'', Lit ''PostMapping'',
        Lit ''PutMapping'', Lit ''PatchMapping'', Lit ''DeleteMapping''], Star ws, Lit ''('', Star ws,
        Opt (Seqs [Lit ''value'', Star ws, Lit ''='', Star ws]), quotedPath 1])]"

definition extractJavaEndpoints :: "string \<Rightarrow> string \<Rightarrow> EndpointInfo list" where
  "extractJavaEndpoints content filename =
     forEachMatch java_patterns content (\<lambda>index m.
       (let method = extractMethodFromAnnotation (m_text m)
        in [mkEndpoint (group_text m 1) (orGET method) (''Spring Boot endpoint from '' @ filename)
              (extractParametersFromPath (group_text m 1))]))"

text \<open>
  \<^verbatim>\<open>/(?:router|r|e)\.(?:GET|POST|PUT|PATCH|DELETE|OPTIONS|HEAD)\s*\(\s*['"`]([^'"`]+)['"`]/gi\<close>
\<close>

definition go_patterns :: "(bool \<times> rx) list" where
  "go_patterns =
    [(True, Seqs [Alts [Lit ''router'', Lit ''r'', Lit ''e''], Lit ''.'',
        Alts [Lit ''GET'', Lit ''POST'', Lit ''PUT'', Lit ''PATCH'', Lit ''DELETE'', Lit ''OPTIONS'',
          Lit ''HEAD''], Star ws, Lit ''('', Star ws, quotedPath 1])]"

definition go_match_body :: "string \<Rightarrow> nat \<Rightarrow> rmatch_result \<Rightarrow> EndpointInfo list" where
  "go_match_body filename index m =
     (let method = extractMethodFromMatch (m_text m)
      in [mkEndpoint (group_text m 1) (orGET method) (''Go endpoint from '' @ filename)
            (extractParametersFromPath (group_text m 1))])"

definition extractGoEndpoints :: "string \<Rightarrow> string \<Rightarrow> EndpointInfo list" where
  "extractGoEndpoints content filename =
     forEachMatch go_patterns content (go_match_body filename)"

text \<open>
  \<^verbatim>\<open>/Route::(?:get|post|put|patch|delete|options|head)\s*\(\s*['"`]([^'"`]+)['"`]/gi\<close>
\<close>

definition php_patterns :: "(bool \<times> rx) list" where
  "php_patterns =
    [(True, Seqs [Lit ''Route::'', httpVerbAlts, Star ws, Lit ''('', Star ws, quotedPath 1])]"

definition php_match_body :: "string \<Rightarrow> nat \<Rightarrow> rmatch_result \<Rightarrow> EndpointInfo list" where
  "php_match_body filename index m =
     (let method = extractMethodFromMatch (m_text m)
      in [mkEndpoint (group_text m 1) (orGET method) (''PHP endpoint from '' @ filename)
            (extractParametersFromPath (group_text m 1))])"

definition extractPHPEndpoints :: "string \<Rightarrow> string \<Rightarrow> EndpointInfo list" where
  "extractPHPEndpoints content filename =
     forEachMatch php_patterns content (php_match_body filename)"

text \<open>\<^verbatim>\<open>/(?:get|post|put|patch|delete|options|head)\s+['"`]([^'"`]+)['"`]/gi\<close>\<close>

definition ruby_patterns :: "(bool \<times> rx) list" where
  "ruby_patterns = [(True, Seqs [httpVerbAlts, Plus ws, quotedPath 1])]"

definition ruby_match_body :: "string \<Rightarrow> nat \<Rightarrow> rmatch_result \<Rightarrow> EndpointInfo list" where
  "ruby_match_body filename index m =
     (let method = extractMethodFromMatch (m_text m)
      in [mkEndpoint (group_text m 1) (orGET method) (''Rails endpoint from '' @ filename)
            (extractParametersFromPath (group_text m 1))])"

definition extractRubyEndpoints :: "string \<Rightarrow> string \<Rightarrow> EndpointInfo list" where
  "extractRubyEndpoints content filename =
     forEachMatch ruby_patterns content (ruby_match_body filename)"

text \<open>
  \<^item> \<^verbatim>\<open>/\[Route\(\"([^\"]+)\"\)\][^{]*\[Http(Get|Post|Put|Patch|Delete)(?:\(\"([^\"]+)\"\))?\]/gs\<close>
  \<^item> \<^verbatim>\<open>/app\.(Get|Post|Put|Patch|Delete)\(\"([^\"]+)\"/gi\<close>
\<close>

definition dquote :: rx where
  "dquote = Atom False [CChar (CHR 0x22)]"

definition dquoted :: "nat \<Rightarrow> rx" where
  "dquoted n = Seqs [dquote, Group n (Plus (Atom True [CChar (CHR 0x22)])), dquote]"

definition aspVerbAlts :: rx where
  "aspVerbAlts = Alts [Lit ''Get'', Lit ''Post'', Lit ''Put'', Lit ''Patch'', Lit ''Delete'']"

definition csharp_patterns :: "(bool \<times> rx) list" where
  "csharp_patterns =
    [(False, Seqs [Lit ''[Route('', dquoted 1, Lit '')]'', Star (Atom True [CChar (CHR ''{'')]),
        Lit ''[Http'', Group 2 aspVerbAlts, Opt (Seqs [Lit ''('', dquoted 3, Lit '')'']), Lit '']'']),
     (True, Seqs [Lit ''app.'', Group 1 aspVerbAlts, Lit ''('', dquoted 2])]"

definition extractCSharpEndpoints :: "string \<Rightarrow> string \<Rightarrow> EndpointInfo list" where
  "extractCSharpEndpoints content filename =
     forEachMatch csharp_patterns content (\<lambda>index m.
       if index = 0 then
         (let basePath = group_text m 1;
              method = toUpperCase (group_text m 2);
              actionPath = group_text m 3;
              fullPath = basePath @ actionPath
          in [mkEndpoint (if prefix ''/'' fullPath then fullPath else ''/'' @ fullPath) method
                (''ASP.NET Core endpoint from '' @ filename) (extractParametersFromPath fullPath)])
       else if index = 1 then
         (let method = toUpperCase (group_text m 1); path = group_text m 2
          in [mkEndpoint path method (''Minimal API endpoint from '' @ filename)
                (extractParametersFromPath path)])
       else [])"

text \<open>
  \<^item> \<^verbatim>\<open>/#\[(get|post|put|patch|delete)\(\"([^\"]+)\"\)\]/gi\<close>
  \<^item> \<^verbatim>\<open>/web::(get|post|put|patch|delete)\(\)/gi\<close>
\<close>

definition rustVerbAlts :: rx where
  "rustVerbAlts = Alts [Lit ''get'', Lit ''post'', Lit ''put'', Lit ''patch'', Lit ''delete'']"

definition rust_patterns :: "(bool \<times> rx) list" where
  "rust_patterns =
    [(True, Seqs [Lit ''#['', Group 1 rustVerbAlts, Lit ''('', dquoted 2, Lit '')]'']),
     (True, Seqs [Lit ''web::'', Group 1 rustVerbAlts, Lit ''()''])]"

definition extractRustEndpoints :: "string \<Rightarrow> string \<Rightarrow> EndpointInfo list" where
  "extractRustEndpoints content filename =
     forEachMatch rust_patterns content (\<lambda>index m.
       if index = 0 then
         (let method = toUpperCase (group_text m 1); path = group_text m 2
          in [mkEndpoint path method (''Rocket endpoint from '' @ filename)
                (extractParametersFromPath path)])
       else if index = 1 then
         (let method = toUpperCase (group_text m 1)
          in [mkEndpoint ''/api'' method (''Actix Web endpoint from '' @ filename) []])
       else [])"

section \<open>RESTAnalyzer: dispatch on the file extension, scan, analyze\<close>

text \<open>
  \<open>path.extname\<close>: the text from the last dot of the last path segment on; empty when
  that segment has no dot, begins with its only dot, or is \<open>..\<close>.
\<close>

definition basename :: "string \<Rightarrow> string" where
  "basename p = rev (takeWhile (\<lambda>c. c \<noteq> CHR ''/'') (dropWhile (\<lambda>c. c = CHR ''/'') (rev p)))"

definition extname :: "string \<Rightarrow> string" where
  "extname p =
     (let b = basename p;
          ext = rev (takeWhile (\<lambda>c. c \<noteq> CHR ''.'') (rev b))
      in if CHR ''.'' \<notin> set b then []
         else if length ext + 1 = length b then []
         else if b = ''..'' then []
         else CHR ''.'' # ext)"

definition extractEndpointsFromFile :: "string \<Rightarrow> string \<Rightarrow> EndpointInfo list" where
  "extractEndpointsFromFile content filename =
     (let ext = extname filename
      in if ext = ''.js'' \<or> ext = ''.ts'' \<or> ext = ''.jsx'' \<or> ext = ''.tsx''
           then extractJavaScriptEndpoints content filename
         else if ext = ''.py'' then extractPythonEndpoints content filename
         else if ext = ''.java'' \<or> ext = ''.kt'' then extractJavaEndpoints content filename
         else if ext = ''.go'' then extractGoEndpoints content filename
         else if ext = ''.php'' then extractPHPEndpoints content filename
         else if ext = ''.rb'' then extractRubyEndpoints content filename
         else if ext = ''.cs'' then extractCSharpEndpoints content filename
         else if ext = ''.rs'' then extractRustEndpoints content filename
         else [])"

text \<open>
  What an analyzer gets from the file system: the files its glob patterns enumerate, in
  enumeration order, each with its content when it can be read.
\<close>

datatype analysis_error =
    PathDoesNotExist string
  | UnsupportedProjectType string
  | NoOpenAPIFilesFound
  | YAMLParsingNotImplemented
  | UnsupportedFileFormat string
  | ReadError string
  | JSONSyntaxError string

type_synonym source_files = "(string \<times> string option) list"

text \<open>
  The scanning loop: a file that cannot be read throws, which ends the analysis.
\<close>

fun scanFiles ::
  "(string \<Rightarrow> string \<Rightarrow> EndpointInfo list) \<Rightarrow> source_files \<Rightarrow> analysis_error + EndpointInfo list" where
  "scanFiles extract [] = Inr []"
| "scanFiles extract ((file, None) # files) = Inl (ReadError file)"
| "scanFiles extract ((file, Some content) # files) =
     (case scanFiles extract files of
        Inl err \<Rightarrow> Inl err
      | Inr endpoints \<Rightarrow> Inr (extract content file @ endpoints))"

definition scanForEndpoints :: "source_files \<Rightarrow> analysis_error + EndpointInfo list" where
  "scanForEndpoints files =
     (case scanFiles extractEndpointsFromFile files of
        Inl err \<Rightarrow> Inl err
      | Inr endpoints \<Rightarrow> Inr (rest_deduplicateEndpoints endpoints))"

definition rest_analyze :: "string \<Rightarrow> source_files \<Rightarrow> analysis_error + ProjectInfo" where
  "rest_analyze projectPath files =
     (case scanForEndpoints files of
        Inl err \<Rightarrow> Inl err
      | Inr endpoints \<Rightarrow>
          Inr \<lparr>pi_name = basename projectPath, pi_type = ''rest-api'', pi_rootPath = projectPath,
               pi_endpoints = endpoints, pi_baseUrl = None, pi_version = None,
               pi_description = None\<rparr>)"

section \<open>NodeJSAnalyzer\<close>

text \<open>The identifier \<^verbatim>\<open>[a-zA-Z_$][a-zA-Z0-9_$]*\<close>.\<close>

definition identStartClass :: "citem list" where
  "identStartClass = [CRange (CHR ''a'') (CHR ''z''), CRange (CHR ''A'') (CHR ''Z''),
     CChar (CHR ''_''), CChar (CHR ''$'')]"

definition identCharClass :: "citem list" where
  "identCharClass = [CRange (CHR ''a'') (CHR ''z''), CRange (CHR ''A'') (CHR ''Z''),
     CRange (CHR ''0'') (CHR ''9''), CChar (CHR ''_''), CChar (CHR ''$'')]"

definition identRx :: rx where
  "identRx = Seq (Atom False identStartClass) (Star (Atom False identCharClass))"



text \<open>\<^verbatim>\<open>/:([a-zA-Z_$][a-zA-Z0-9_$]*)/g\<close>\<close>

definition colonParamRx :: rx where
  "colonParamRx = Seq (Lit '':'') (Group 1 identRx)"

definition normalizePath :: "string \<Rightarrow> string" where
  "normalizePath path = replaceAll False colonParamRx (\<lambda>m. ''{'' @ group_text m 1 @ ''}'') path"

text \<open>
  \<^verbatim>\<open>/req\\.query\\.([a-zA-Z_$][a-zA-Z0-9_$]*)/g\<close> and
  \<^verbatim>\<open>/query\\.([a-zA-Z_$][a-zA-Z0-9_$]*)/g\<close>: in a regular-expression literal a doubled
  backslash is an escaped backslash and the dot after it is the any-character dot.
\<close>

definition queryPatterns :: "rx list" where
  "queryPatterns =
    [Seqs [Lit ''req'', Lit [CHR 0x5C], AnyChar, Lit ''query'', Lit [CHR 0x5C], AnyChar,
       Group 1 identRx],
     Seqs [Lit ''query'', Lit [CHR 0x5C], AnyChar, Group 1 identRx]]"

definition addQueryParameter :: "Parameter list \<Rightarrow> rmatch_result \<Rightarrow> Parameter list" where
  "addQueryParameter parameters m =
     (if List.find (\<lambda>p. p_name p = group_text m 1) parameters = None
      then parameters @ [\<lparr>p_name = group_text m 1, p_type = ''string'', p_required = False,
                           p_description = None, p_in = Some ''query''\<rparr>]
      else parameters)"

text \<open>
  \<open>Math.max(0, position - 500)\<close> is the subtraction of natural numbers, which stops at 0;
  \<open>content.substring(contextStart, contextEnd)\<close> is \<open>take\<close> after \<open>drop\<close>.
\<close>

definition extractParameters :: "string \<Rightarrow> string \<Rightarrow> nat \<Rightarrow> Parameter list" where
  "extractParameters path content position =
     (let pathParams = map (\<lambda>m. \<lparr>p_name = drop 1 (m_text m), p_type = ''string'',
                                  p_required = True, p_description = None,
                                  p_in = Some ''path''\<rparr>)
                           (execAll False colonParamRx path);
          contextStart = position - 500;
          contextEnd = min (length content) (position + 500);
          context = take (contextEnd - contextStart) (drop contextStart content)
      in foldl (\<lambda>parameters pattern. foldl addQueryParameter parameters (execAll False pattern context))
               pathParams queryPatterns)"

text \<open>
  \<^item> \<^verbatim>\<open>/(?:app|router)\.(get|post|put|patch|delete|options|head)\s*\(\s*['"`]([^'"`]+)['"`]/g\<close>
  \<^item> \<^verbatim>\<open>/\.route\s*\(\s*['"`]([^'"`]+)['"`]\s*\)/g\<close>
  \<^item> \<^verbatim>\<open>/fastify\.(get|post|put|patch|delete|options|head)\s*\(\s*['"`]([^'"`]+)['"`]/g\<close>
  \<^item> \<^verbatim>\<open>/url\s*:\s*['"`]([^'"`]+)['"`]/g\<close>
  \<^item> \<^verbatim>\<open>/router\.(get|post|put|patch|delete|options|head)\s*\(\s*['"`]([^'"`]+)['"`]/g\<close>
\<close>

definition allPatterns :: "(bool \<times> rx) list" where
  "allPatterns =
    [(False, Seqs [Alt (Lit ''app'') (Lit ''router''), Lit ''.'', Group 1 httpVerbAlts, Star ws,
        Lit ''('', Star ws, quotedPath 2]),
     (False, Seqs [Lit ''.route'', Star ws, Lit ''('', Star ws, quotedPath 1, Star ws, Lit '')'']),
     (False, Seqs [Lit ''fastify.'', Group 1 httpVerbAlts, Star ws, Lit ''('', Star ws,
        quotedPath 2]),
     (False, Seqs [Lit ''url'', Star ws, Lit '':'', Star ws, quotedPath 1]),
     (False, Seqs [Lit ''router.'', Group 1 httpVerbAlts, Star ws, Lit ''('', Star ws,
        quotedPath 2])]"

definition httpMethods :: "string list" where
  "httpMethods = [''get'', ''post'', ''put'', ''patch'', ''delete'', ''options'', ''head'']"

text \<open>\<open>a || b\<close> on captures: an unset group and the empty string are falsy.\<close>

definition js_or :: "string option \<Rightarrow> string \<Rightarrow> string" where
  "js_or a b = (case a of None \<Rightarrow> b | Some t \<Rightarrow> if t = [] then b else t)"

definition node_match_body :: "string \<Rightarrow> string \<Rightarrow> nat \<Rightarrow> rmatch_result \<Rightarrow> EndpointInfo list" where
  "node_match_body content filename index m =
     (let method = js_or (cap m 1) ''get'';
          path = js_or (cap m 2) (group_text m 1)
      in if List.member httpMethods (toLowerCase method)
         then [mkEndpoint (normalizePath path) (toUpperCase method) (''Endpoint from '' @ filename)
                 (extractParameters path content (m_index m))]
         else [])"

definition parseEndpointsFromFile :: "string \<Rightarrow> string \<Rightarrow> EndpointInfo list" where
  "parseEndpointsFromFile content filename =
     forEachMatch allPatterns content (node_match_body content filename)"

definition extractEndpoints :: "source_files \<Rightarrow> analysis_error + EndpointInfo list" where
  "extractEndpoints allFiles =
     (case scanFiles parseEndpointsFromFile allFiles of
        Inl err \<Rightarrow> Inl err
      | Inr endpoints \<Rightarrow> Inr (node_deduplicateEndpoints endpoints))"

text \<open>The fields of \<open>package.json\<close> the analyzer reads; all absent when there is no file.\<close>

record PackageInfo =
  pkg_name :: "string option"
  pkg_version :: "string option"
  pkg_description :: "string option"

definition node_analyze :: "string \<Rightarrow> PackageInfo \<Rightarrow> source_files \<Rightarrow> analysis_error + ProjectInfo" where
  "node_analyze projectPath packageInfo allFiles =
     (case extractEndpoints allFiles of
        Inl err \<Rightarrow> Inl err
      | Inr endpoints \<Rightarrow>
          Inr \<lparr>pi_name = js_or (pkg_name packageInfo) (basename projectPath), pi_type = ''nodejs'',
               pi_rootPath = projectPath, pi_endpoints = endpoints, pi_baseUrl = None,
               pi_version = pkg_version packageInfo,
               pi_description = pkg_description packageInfo\<rparr>)"

section \<open>TemplateManager: the identifier helpers\<close>

text \<open>\<open>path.split('/').filter(part => part && part !== '')\<close>\<close>

definition pathParts :: "string \<Rightarrow> string list" where
  "pathParts path = filter (\<lambda>part. part \<noteq> []) (split_on (CHR ''/'') path)"




section \<open>TemplateManager: template lookup\<close>

text \<open>
  A template is found in the templates directory (\<open>templates/<name>.hbs\<close>) or, failing
  that, in the built-in table; a name in neither is an error. Rendering is not modelled:
  the text a template produces is the pair of the template and the data it is given.
\<close>

datatype template = CustomTemplate string | BuiltinTemplate string

definition builtinTemplateNames :: "string list" where
  "builtinTemplateNames = [''server.ts'', ''package.json'', ''tsconfig.json'', ''tool.ts'',
     ''tools-index.ts'', ''test-setup.ts'', ''tool-test.ts'', ''docs.md'', ''README.md'']"

datatype gen_error = TemplateNotFound string

definition getTemplate :: "(string \<Rightarrow> string option) \<Rightarrow> string \<Rightarrow> gen_error + template" where
  "getTemplate templateFiles templateName =
     (case templateFiles templateName of
        Some templateContent \<Rightarrow> Inr (CustomTemplate templateContent)
      | None \<Rightarrow>
          if List.member builtinTemplateNames templateName
          then Inr (BuiltinTemplate templateName)
          else Inl (TemplateNotFound templateName))"

section \<open>MCPGenerator\<close>

record TransformRule =
  tr_pattern :: string
  tr_replacement :: string
  tr_type :: string

record MCPConfig =
  serverName :: string
  description :: string
  version :: string
  outputFormat :: string
  includeTests :: bool
  includeDocumentation :: bool
  customTemplates :: "string option"
  excludeEndpoints :: "string list option"
  transformRules :: "TransformRule list option"

text \<open>
  A path is the list of its segments; \<open>path.join\<close> appends segments, \<open>path.dirname\<close>
  drops the last one, \<open>path.relative(from, to)\<close> climbs out of what is left of \<open>from\<close>
  after the common prefix and descends into what is left of \<open>to\<close>.
\<close>

type_synonym fpath = "string list"

fun path_relative :: "fpath \<Rightarrow> fpath \<Rightarrow> fpath" where
  "path_relative (x # xs) (y # ys) =
     (if x = y then path_relative xs ys else replicate (length (x # xs)) ''..'' @ (y # ys))"
| "path_relative xs ys = replicate (length xs) ''..'' @ ys"

definition path_dirname :: "fpath \<Rightarrow> fpath" where
  "path_dirname p = butlast p"

text \<open>The data handed to a template.\<close>

record render_context =
  rc_config :: "MCPConfig option"
  rc_projectInfo :: "ProjectInfo option"
  rc_endpoints :: "EndpointInfo list option"
  rc_endpoint :: "EndpointInfo option"

datatype file_content = Rendered template render_context | PlainText string

text \<open>
  The effects of a run: the calls made to the file system, the lines printed, and the
  exception that ended the run, if any. A call to the file system is taken to succeed;
  the exception of the model is the missing template.
\<close>

datatype fs_call = EnsureDir fpath | WriteFile fpath file_content

datatype log_line =
    Generating string
  | DryRunNotice
  | WouldCreateDirectory fpath
  | WouldCreateFile fpath
  | Created fpath
  | GeneratedSuccessfully
  | NextSteps

record gen_state =
  fs_calls :: "fs_call list"
  console :: "log_line list"
  failure :: "gen_error option"

record GenerationOptions =
  dryRun :: bool
  outputPath :: fpath

definition initial_state :: gen_state where
  "initial_state = \<lparr>fs_calls = [], console = [], failure = None\<rparr>"

definition fs_do :: "fs_call \<Rightarrow> gen_state \<Rightarrow> gen_state" where
  "fs_do c s = s\<lparr>fs_calls := fs_calls s @ [c]\<rparr>"

definition console_log :: "log_line \<Rightarrow> gen_state \<Rightarrow> gen_state" where
  "console_log l s = s\<lparr>console := console s @ [l]\<rparr>"

text \<open>A statement runs only while no exception is pending.\<close>

definition running :: "(gen_state \<Rightarrow> gen_state) \<Rightarrow> gen_state \<Rightarrow> gen_state" where
  "running f s = (if failure s = None then f s else s)"

definition writeFile :: "fpath \<Rightarrow> file_content \<Rightarrow> GenerationOptions \<Rightarrow> gen_state \<Rightarrow> gen_state" where
  "writeFile filePath content options =
     running (\<lambda>s.
       if dryRun options
       then console_log (WouldCreateFile (path_relative (outputPath options) filePath)) s
       else console_log (Created (path_relative (outputPath options) filePath))
              (fs_do (WriteFile filePath content)
                (fs_do (EnsureDir (path_dirname filePath)) s)))"

text \<open>
  \<open>const t = await this.templateManager.getTemplate(name); await this.writeFile(path, t(data), options)\<close>
\<close>

definition renderToFile ::
  "(string \<Rightarrow> string option) \<Rightarrow> string \<Rightarrow> render_context \<Rightarrow> fpath \<Rightarrow> GenerationOptions
     \<Rightarrow> gen_state \<Rightarrow> gen_state" where
  "renderToFile templateFiles templateName data filePath options =
     running (\<lambda>s.
       case getTemplate templateFiles templateName of
         Inl err \<Rightarrow> s\<lparr>failure := Some err\<rparr>
       | Inr t \<Rightarrow> writeFile filePath (Rendered t data) options s)"

definition no_data :: render_context where
  "no_data = \<lparr>rc_config = None, rc_projectInfo = None, rc_endpoints = None, rc_endpoint = None\<rparr>"

definition directories :: "MCPConfig \<Rightarrow> fpath list" where
  "directories config =
     [[''src''], [''src'', ''tools''], [''src'', ''types''], [''src'', ''utils''], [''dist'']]
     @ (if includeTests config then [[''tests''], [''tests'', ''tools'']] else [])
     @ (if includeDocumentation config then [[''docs'']] else [])"

definition createDirectory :: "GenerationOptions \<Rightarrow> fpath \<Rightarrow> gen_state \<Rightarrow> gen_state" where
  "createDirectory options dir =
     running (\<lambda>s.
       let dirPath = outputPath options @ dir
       in if \<not> dryRun options then fs_do (EnsureDir dirPath) s
          else console_log (WouldCreateDirectory dirPath) s)"

definition createDirectoryStructure :: "MCPConfig \<Rightarrow> GenerationOptions \<Rightarrow> gen_state \<Rightarrow> gen_state" where
  "createDirectoryStructure config options s =
     foldl (\<lambda>s dir. createDirectory options dir s) s (directories config)"

definition generateServerFiles ::
  "MCPConfig \<Rightarrow> (string \<Rightarrow> string option) \<Rightarrow> ProjectInfo \<Rightarrow> GenerationOptions \<Rightarrow> gen_state \<Rightarrow> gen_state" where
  "generateServerFiles config templateFiles projectInfo options s =
     (let s1 = renderToFile templateFiles ''server.ts''
                 (no_data\<lparr>rc_config := Some config, rc_projectInfo := Some projectInfo,
                           rc_endpoints := Some (pi_endpoints projectInfo)\<rparr>)
                 (outputPath options @ [''src'', ''index.ts'']) options s;
          s2 = renderToFile templateFiles ''package.json''
                 (no_data\<lparr>rc_config := Some config, rc_projectInfo := Some projectInfo\<rparr>)
                 (outputPath options @ [''package.json'']) options s1
      in if outputFormat config = ''typescript''
         then renderToFile templateFiles ''tsconfig.json'' (no_data\<lparr>rc_config := Some config\<rparr>)
                (outputPath options @ [''tsconfig.json'']) options s2
         else s2)"

definition generateToolName :: "EndpointInfo \<Rightarrow> string" where
  "generateToolName endpoint =
     (let cleanParts = map (\<lambda>part. capitalize (stripParamChars part)) (pathParts (e_path endpoint))
      in toLowerCase (e_method endpoint) @ join [] cleanParts)"

text \<open>
  \<open>!this.config.excludeEndpoints?.includes(endpointKey)\<close>: with no exclusion list every
  endpoint is kept.
\<close>

definition filteredEndpoints :: "MCPConfig \<Rightarrow> ProjectInfo \<Rightarrow> EndpointInfo list" where
  "filteredEndpoints config projectInfo =
     filter (\<lambda>endpoint.
               (case excludeEndpoints config of
                  None \<Rightarrow> True
                | Some excluded \<Rightarrow> \<not> List.member excluded (endpointKey endpoint)))
            (pi_endpoints projectInfo)"

definition generateToolFiles ::
  "MCPConfig \<Rightarrow> (string \<Rightarrow> string option) \<Rightarrow> ProjectInfo \<Rightarrow> GenerationOptions \<Rightarrow> gen_state \<Rightarrow> gen_state" where
  "generateToolFiles config templateFiles projectInfo options s =
     (let s1 = foldl (\<lambda>s endpoint.
                   renderToFile templateFiles ''tool.ts''
                     (no_data\<lparr>rc_endpoint := Some endpoint, rc_projectInfo := Some projectInfo,
                               rc_config := Some config\<rparr>)
                     (outputPath options @ [''src'', ''tools'', generateToolName endpoint @ ''.ts''])
                     options s)
                 s (filteredEndpoints config projectInfo)
      in renderToFile templateFiles ''tools-index.ts''
           (no_data\<lparr>rc_endpoints := Some (filteredEndpoints config projectInfo),
                     rc_config := Some config\<rparr>)
           (outputPath options @ [''src'', ''tools'', ''index.ts'']) options s1)"

text \<open>
  The line ends of the environment file are written \<open>'\\n'\<close> in the source: a backslash
  and the letter n.
\<close>

definition bsn :: string where
  "bsn = [CHR 0x5C, CHR ''n'']"

definition generateEnvFile :: "ProjectInfo \<Rightarrow> string" where
  "generateEnvFile projectInfo =
     ''# Environment Configuration'' @ bsn @ bsn
     @ (case pi_baseUrl projectInfo of
          None \<Rightarrow> []
        | Some baseUrl \<Rightarrow> if baseUrl = [] then [] else ''API_BASE_URL='' @ baseUrl @ bsn)
     @ ''API_KEY=your_api_key_here'' @ bsn
     @ ''PORT=3000'' @ bsn
     @ ''LOG_LEVEL=info'' @ bsn"

definition generateConfigFiles ::
  "MCPConfig \<Rightarrow> (string \<Rightarrow> string option) \<Rightarrow> ProjectInfo \<Rightarrow> GenerationOptions \<Rightarrow> gen_state \<Rightarrow> gen_state" where
  "generateConfigFiles config templateFiles projectInfo options s =
     (let s1 = writeFile (outputPath options @ [''.env.example''])
                 (PlainText (generateEnvFile projectInfo)) options s
      in renderToFile templateFiles ''README.md''
           (no_data\<lparr>rc_config := Some config, rc_projectInfo := Some projectInfo,
                     rc_endpoints := Some (pi_endpoints projectInfo)\<rparr>)
           (outputPath options @ [''README.md'']) options s1)"

definition generateTestFiles ::
  "MCPConfig \<Rightarrow> (string \<Rightarrow> string option) \<Rightarrow> ProjectInfo \<Rightarrow> GenerationOptions \<Rightarrow> gen_state \<Rightarrow> gen_state" where
  "generateTestFiles config templateFiles projectInfo options s =
     (let s1 = renderToFile templateFiles ''test-setup.ts''
                 (no_data\<lparr>rc_config := Some config, rc_projectInfo := Some projectInfo\<rparr>)
                 (outputPath options @ [''tests'', ''setup.ts'']) options s
      in foldl (\<lambda>s endpoint.
                  renderToFile templateFiles ''tool-test.ts''
                    (no_data\<lparr>rc_endpoint := Some endpoint, rc_config := Some config\<rparr>)
                    (outputPath options @ [''tests'', ''tools'', generateToolName endpoint @ ''.test.ts''])
                    options s)
               s1 (pi_endpoints projectInfo))"

definition generateDocumentation ::
  "MCPConfig \<Rightarrow> (string \<Rightarrow> string option) \<Rightarrow> ProjectInfo \<Rightarrow> GenerationOptions \<Rightarrow> gen_state \<Rightarrow> gen_state" where
  "generateDocumentation config templateFiles projectInfo options s =
     renderToFile templateFiles ''docs.md''
       (no_data\<lparr>rc_config := Some config, rc_projectInfo := Some projectInfo,
                 rc_endpoints := Some (pi_endpoints projectInfo)\<rparr>)
       (outputPath options @ [''docs'', ''API.md'']) options s"

text \<open>
  \<open>generate(projectInfo, outputPath, dryRun)\<close>, from a state with nothing done yet. The
  output path is taken already resolved.
\<close>

definition generate ::
  "MCPConfig \<Rightarrow> (string \<Rightarrow> string option) \<Rightarrow> ProjectInfo \<Rightarrow> fpath \<Rightarrow> bool \<Rightarrow> gen_state" where
  "generate config templateFiles projectInfo outPath dry =
     (let options = \<lparr>dryRun = dry, outputPath = outPath\<rparr>;
          s0 = console_log (Generating (pi_name projectInfo)) initial_state;
          s1 = (if dry then console_log DryRunNotice s0 else s0);
          s2 = createDirectoryStructure config options s1;
          s3 = generateServerFiles config templateFiles projectInfo options s2;
          s4 = generateToolFiles config templateFiles projectInfo options s3;
          s5 = generateConfigFiles config templateFiles projectInfo options s4;
          s6 = (if includeTests config
                then generateTestFiles config templateFiles projectInfo options s5 else s5);
          s7 = (if includeDocumentation config
                then generateDocumentation config templateFiles projectInfo options s6 else s6)
      in if \<not> dry
         then running (\<lambda>s. console_log NextSteps (console_log GeneratedSuccessfully s)) s7
         else s7)"


fun writtenFiles :: "fs_call list \<Rightarrow> fpath list" where
  "writtenFiles [] = []"
| "writtenFiles (WriteFile p c # cs) = p # writtenFiles cs"
| "writtenFiles (c # cs) = writtenFiles cs"

fun writtenContents :: "fs_call list \<Rightarrow> (fpath \<times> file_content) list" where
  "writtenContents [] = []"
| "writtenContents (WriteFile p c # cs) = (p, c) # writtenContents cs"
| "writtenContents (c # cs) = writtenContents cs"

section \<open>OpenAPIAnalyzer\<close>

text \<open>
  The parts of a parsed specification the analyzer reads. \<open>JSON.parse\<close> is a parameter
  of the model: it yields a specification or fails with a syntax error.
\<close>

record SpecParameter =
  sp_name :: string
  sp_schema_type :: "string option"
  sp_type :: "string option"
  sp_required :: "bool option"
  sp_description :: "string option"
  sp_in :: "string option"

record SpecOperation =
  op_summary :: "string option"
  op_description :: "string option"
  op_parameters :: "SpecParameter list option"

record OpenAPISpec =
  spec_title :: "string option"
  spec_version :: "string option"
  spec_description :: "string option"
  spec_servers :: "string option list option"
  spec_host :: "string option"
  spec_schemes :: "string list option"
  spec_basePath :: "string option"
  spec_paths :: "(string \<times> (string \<times> SpecOperation) list) list option"

text \<open>\<open>a || b\<close> on optional strings.\<close>

definition opt_or :: "string option \<Rightarrow> string option \<Rightarrow> string option" where
  "opt_or a b = (case a of None \<Rightarrow> b | Some t \<Rightarrow> if t = [] then b else Some t)"

definition openapi_extractParameters :: "SpecOperation \<Rightarrow> Parameter list" where
  "openapi_extractParameters operation =
     map (\<lambda>param. \<lparr>p_name = sp_name param,
                    p_type = js_or (opt_or (sp_schema_type param) (sp_type param)) ''string'',
                    p_required = (case sp_required param of None \<Rightarrow> False | Some r \<Rightarrow> r),
                    p_description = sp_description param,
                    p_in = sp_in param\<rparr>)
         (case op_parameters operation of None \<Rightarrow> [] | Some ps \<Rightarrow> ps)"

definition extractEndpointsFromSpec :: "OpenAPISpec \<Rightarrow> EndpointInfo list" where
  "extractEndpointsFromSpec spec =
     concat (map (\<lambda>(pathName, pathItem).
                    concat (map (\<lambda>method.
                              (case map_of pathItem method of
                                 None \<Rightarrow> []
                               | Some operation \<Rightarrow>
                                   [\<lparr>e_path = pathName, e_method = toUpperCase method,
                                     e_description = opt_or (op_summary operation) (op_description operation),
                                     e_parameters = openapi_extractParameters operation\<rparr>]))
                            httpMethods))
                 (case spec_paths spec of None \<Rightarrow> [] | Some ps \<Rightarrow> ps))"

definition extractBaseUrl :: "OpenAPISpec \<Rightarrow> string option" where
  "extractBaseUrl spec =
     (case spec_servers spec of
        Some (server # servers) \<Rightarrow> server
      | _ \<Rightarrow>
          (case spec_host spec of
             None \<Rightarrow> None
           | Some host \<Rightarrow>
               if host = [] then None
               else
                 (let scheme = (case spec_schemes spec of
                                  Some (sch # schs) \<Rightarrow> if sch = [] then ''https'' else sch
                                | _ \<Rightarrow> ''https'');
                      basePath = js_or (spec_basePath spec) []
                  in Some (scheme @ ''://'' @ host @ basePath))))"

text \<open>
  \<open>path.join(projectPath, file)\<close> for a file name produced by \<open>glob\<close>, which is relative
  and already normalized.
\<close>

definition joinPath :: "string \<Rightarrow> string \<Rightarrow> string" where
  "joinPath projectPath file = projectPath @ ''/'' @ file"

definition parseOpenAPISpec ::
  "(string \<Rightarrow> string option) \<Rightarrow> (string \<Rightarrow> OpenAPISpec option) \<Rightarrow> string \<Rightarrow> analysis_error + OpenAPISpec" where
  "parseOpenAPISpec readFile parseJSON filePath =
     (case readFile filePath of
        None \<Rightarrow> Inl (ReadError filePath)
      | Some content \<Rightarrow>
          (let ext = toLowerCase (extname filePath)
           in if ext = ''.json'' then
                (case parseJSON content of
                   None \<Rightarrow> Inl (JSONSyntaxError filePath)
                 | Some spec \<Rightarrow> Inr spec)
              else if ext = ''.yaml'' \<or> ext = ''.yml'' then Inl YAMLParsingNotImplemented
              else Inl (UnsupportedFileFormat ext)))"

text \<open>
  What the analyzers see of a project directory: whether it exists, what each glob
  enumerates, the manifest, and how files read and parse.
\<close>

record project_env =
  env_exists :: bool
  env_openApiFiles :: "string list"
  env_hasPackageJson :: bool
  env_packageInfo :: PackageInfo
  env_apiFiles :: "string list"
  env_codeFiles :: "string list"
  env_readFile :: "string \<Rightarrow> string option"
  env_parseJSON :: "string \<Rightarrow> OpenAPISpec option"
  env_nodeFiles :: source_files
  env_restFiles :: source_files

definition openapi_analyze :: "project_env \<Rightarrow> string \<Rightarrow> analysis_error + ProjectInfo" where
  "openapi_analyze env projectPath =
     (case env_openApiFiles env of
        [] \<Rightarrow> Inl NoOpenAPIFilesFound
      | specFile # others \<Rightarrow>
          (case parseOpenAPISpec (env_readFile env) (env_parseJSON env) (joinPath projectPath specFile) of
             Inl err \<Rightarrow> Inl err
           | Inr spec \<Rightarrow>
               Inr \<lparr>pi_name = js_or (spec_title spec) (basename projectPath), pi_type = ''openapi'',
                    pi_rootPath = projectPath, pi_endpoints = extractEndpointsFromSpec spec,
                    pi_baseUrl = extractBaseUrl spec, pi_version = spec_version spec,
                    pi_description = spec_description spec\<rparr>))"

section \<open>ProjectAnalyzer\<close>

definition detectProjectType :: "project_env \<Rightarrow> string" where
  "detectProjectType env =
     (if env_openApiFiles env \<noteq> [] then ''openapi''
      else if env_hasPackageJson env then ''nodejs''
      else if env_apiFiles env \<noteq> [] then ''rest-api''
      else if env_codeFiles env \<noteq> [] then ''nodejs''
      else ''rest-api'')"

definition analyze :: "project_env \<Rightarrow> string \<Rightarrow> string \<Rightarrow> analysis_error + ProjectInfo" where
  "analyze env fullPath type =
     (if \<not> env_exists env then Inl (PathDoesNotExist fullPath)
      else
        (let detectedType = (if type = ''auto'' then detectProjectType env else type)
         in if detectedType = ''openapi'' then openapi_analyze env fullPath
            else if detectedType = ''nodejs'' then
              node_analyze fullPath
                (if env_hasPackageJson env then env_packageInfo env
                 else \<lparr>pkg_name = None, pkg_version = None, pkg_description = None\<rparr>)
                (env_nodeFiles env)
            else if detectedType = ''rest-api'' then rest_analyze fullPath (env_restFiles env)
            else Inl (UnsupportedProjectType detectedType)))"

section \<open>Example inputs\<close>

definition ex_get_users :: EndpointInfo where
  "ex_get_users = mkEndpoint ''/users'' ''GET'' ''Endpoint from routes/users.js'' []"



definition ex_get_health :: EndpointInfo where
  "ex_get_health = mkEndpoint ''/health'' ''GET'' ''Endpoint from app.js'' []"

definition ex_config :: MCPConfig where
  "ex_config = \<lparr>serverName = ''agentify-mcp-server'',
     description = ''Auto-generated MCP server via Agentify'', version = ''1.0.0'',
     outputFormat = ''typescript'', includeTests = True, includeDocumentation = True,
     customTemplates = None, excludeEndpoints = Some [''GET:/health''], transformRules = Some []\<rparr>"

definition ex_project :: ProjectInfo where
  "ex_project = \<lparr>pi_name = ''shop'', pi_type = ''nodejs'', pi_rootPath = ''/work/shop'',
     pi_endpoints = [ex_get_health, ex_get_users], pi_baseUrl = None, pi_version = None,
     pi_description = None\<rparr>"

definition no_template_files :: "string \<Rightarrow> string option" where
  "no_template_files templateName = None"

definition ex_out :: fpath where
  "ex_out = [''work'', ''mcp-server'']"

text \<open>Source texts. The quote characters and the line feed are written by code.\<close>

definition sq :: string where
  "sq = [CHR 0x27]"

definition dq :: string where
  "dq = [CHR 0x22]"

definition nl :: string where
  "nl = [CHR 0x0A]"


text \<open>\<^verbatim>\<open>app.delete('/budgets', h)\<close> and its Go, PHP and Ruby counterparts\<close>

definition ex_delete_js :: string where
  "ex_delete_js = ''app.delete('' @ sq @ ''/budgets'' @ sq @ '', h)''"

definition ex_delete_go :: string where
  "ex_delete_go = ''r.DELETE('' @ dq @ ''/budgets'' @ dq @ '', h)''"

definition ex_delete_php :: string where
  "ex_delete_php = ''Route::delete('' @ sq @ ''/budgets'' @ sq @ '', $h);''"

definition ex_delete_ruby :: string where
  "ex_delete_ruby = ''delete '' @ sq @ ''/budgets'' @ sq"

text \<open>
  A Next.js handler that checks \<open>req.method\<close> against \<open>'GET'\<close> and \<open>'PUT'\<close>:
  \<^verbatim>\<open>
  export default function handler(req, res) {
    if (req.method === 'GET') { return res.status(200).json({}); }
    if (req.method === 'PUT') { return res.status(200).json({}); }
  }
  \<close>
\<close>

definition ex_next_src :: string where
  "ex_next_src =
     ''export default function handler(req, res) {'' @ nl
     @ ''  if (req.method === '' @ sq @ ''GET'' @ sq @ '') { return res.status(200).json({}); }'' @ nl
     @ ''  if (req.method === '' @ sq @ ''PUT'' @ sq @ '') { return res.status(200).json({}); }'' @ nl
     @ ''}''"

text \<open>\<^verbatim>\<open>app.get('/users', (req, res) => { res.json(find(req.query.page)); });\<close>\<close>

definition ex_query_src :: string where
  "ex_query_src =
     ''app.get('' @ sq @ ''/users'' @ sq @ '', (req, res) => { res.json(find(req.query.page)); });''"

text \<open>
  \<^verbatim>\<open>
  class OrderViewSet(viewsets.ModelViewSet):
      queryset = Order.objects.all()
  \<close>
\<close>

definition ex_viewset_src :: string where
  "ex_viewset_src =
     ''class OrderViewSet(viewsets.ModelViewSet):'' @ nl @ ''    queryset = Order.objects.all()''"

definition path_parameter :: "string \<Rightarrow> string option \<Rightarrow> Parameter" where
  "path_parameter n d =
     \<lparr>p_name = n, p_type = ''string'', p_required = True, p_description = d, p_in = Some ''path''\<rparr>"

text \<open>The message each error carries.\<close>

fun error_message :: "analysis_error \<Rightarrow> string" where
  "error_message (PathDoesNotExist p) = ''Project path does not exist: '' @ p"
| "error_message (UnsupportedProjectType t) = ''Unsupported project type: '' @ t"
| "error_message NoOpenAPIFilesFound = ''No OpenAPI/Swagger files found''"
| "error_message YAMLParsingNotImplemented =
     ''YAML parsing not implemented. Please convert to JSON format.''"
| "error_message (UnsupportedFileFormat ext) = ''Unsupported file format: '' @ ext"
| "error_message (ReadError p) = ''cannot read '' @ p"
| "error_message (JSONSyntaxError p) = ''cannot parse '' @ p"

text \<open>An example project: nothing but an \<open>openapi.yaml\<close>, which can be read.\<close>

definition ex_yaml_env :: project_env where
  "ex_yaml_env = \<lparr>env_exists = True, env_openApiFiles = [''openapi.yaml''],
     env_hasPackageJson = False,
     env_packageInfo = \<lparr>pkg_name = None, pkg_version = None, pkg_description = None\<rparr>,
     env_apiFiles = [], env_codeFiles = [],
     env_readFile = (\<lambda>p. if p = ''/work/api/openapi.yaml'' then Some ''openapi: 3.0.0'' else None),
     env_parseJSON = (\<lambda>content. None),
     env_nodeFiles = [], env_restFiles = []\<rparr>"

text \<open>An example project whose \<open>openapi.json\<close> reads and parses.\<close>

definition ex_spec :: OpenAPISpec where
  "ex_spec = \<lparr>spec_title = Some ''Shop'', spec_version = Some ''1.0.0'', spec_description = None,
     spec_servers = None, spec_host = None, spec_schemes = None, spec_basePath = None,
     spec_paths = Some [(''/orders'',
       [(''get'', \<lparr>op_summary = Some ''List orders'', op_description = None,
                   op_parameters = None\<rparr>)])]\<rparr>"

definition ex_json_env :: project_env where
  "ex_json_env = \<lparr>env_exists = True, env_openApiFiles = [''openapi.json''],
     env_hasPackageJson = False,
     env_packageInfo = \<lparr>pkg_name = None, pkg_version = None, pkg_description = None\<rparr>,
     env_apiFiles = [], env_codeFiles = [],
     env_readFile = (\<lambda>p. if p = ''/work/api/openapi.json'' then Some ''{}'' else None),
     env_parseJSON = (\<lambda>content. Some ex_spec),
     env_nodeFiles = [], env_restFiles = []\<rparr>"

text \<open>The six endpoints of the view set \<open>OrderViewSet\<close>, and the match that yields them.\<close>

definition orderViewSetEndpoints :: "EndpointInfo list" where
  "orderViewSetEndpoints =
     [mkEndpoint ''/order/'' ''GET'' ''DRF OrderViewSet - List'' [],
      mkEndpoint ''/order/'' ''POST'' ''DRF OrderViewSet - Create'' [],
      mkEndpoint ''/order/{id}/'' ''GET'' ''DRF OrderViewSet - Retrieve''
        [path_parameter ''id'' (Some ''Path parameter: id'')],
      mkEndpoint ''/order/{id}/'' ''PUT'' ''DRF OrderViewSet - Update''
        [path_parameter ''id'' (Some ''Path parameter: id'')],
      mkEndpoint ''/order/{id}/'' ''PATCH'' ''DRF OrderViewSet - Partial Update''
        [path_parameter ''id'' (Some ''Path parameter: id'')],
      mkEndpoint ''/order/{id}/'' ''DELETE'' ''DRF OrderViewSet - Delete''
        [path_parameter ''id'' (Some ''Path parameter: id'')]]"

definition ex_viewset_match :: rmatch_result where
  "ex_viewset_match = \<lparr>m_index = 0, m_text = ''class OrderViewSet(viewsets.ModelViewSet):'',
     m_caps = [(1, ''OrderViewSet'')]\<rparr>"




section \<open>Relating a dry run to a real run\<close>




section \<open>Properties of deduplication\<close>











section \<open>A dry run and a real run\<close>




















section \<open>Excluded endpoints\<close>

text \<open>
  Claim C1, evaluated where it fails. The project has the endpoints \<open>GET /health\<close> and
  \<open>GET /users\<close>, and the configuration excludes the exact key \<open>GET:/health\<close>. The run
  writes no tool file for the excluded endpoint and gives the tools index the other
  endpoint only, but it hands the excluded endpoint to the templates of the server entry
  point, the README and the API documentation, and it writes a test file for it.
\<close>

theorem generate_excluded_endpoint_still_generated:
  "excludeEndpoints ex_config = Some [endpointKey ex_get_health]
   \<and> writtenFiles (fs_calls (generate ex_config no_template_files ex_project ex_out False))
       = map ((@) ex_out)
           [[''src'', ''index.ts''], [''package.json''], [''tsconfig.json''],
            [''src'', ''tools'', ''getUsers.ts''], [''src'', ''tools'', ''index.ts''],
            [''.env.example''], [''README.md''], [''tests'', ''setup.ts''],
            [''tests'', ''tools'', ''getHealth.test.ts''],
            [''tests'', ''tools'', ''getUsers.test.ts''], [''docs'', ''API.md'']]
   \<and> map_of (writtenContents (fs_calls (generate ex_config no_template_files ex_project ex_out False)))
         (ex_out @ [''src'', ''tools'', ''index.ts''])
       = Some (Rendered (BuiltinTemplate ''tools-index.ts'')
                 \<lparr>rc_config = Some ex_config, rc_projectInfo = None,
                  rc_endpoints = Some [ex_get_users], rc_endpoint = None\<rparr>)
   \<and> map_of (writtenContents (fs_calls (generate ex_config no_template_files ex_project ex_out False)))
         (ex_out @ [''src'', ''index.ts''])
       = Some (Rendered (BuiltinTemplate ''server.ts'')
                 \<lparr>rc_config = Some ex_config, rc_projectInfo = Some ex_project,
                  rc_endpoints = Some [ex_get_health, ex_get_users], rc_endpoint = None\<rparr>)
   \<and> map_of (writtenContents (fs_calls (generate ex_config no_template_files ex_project ex_out False)))
         (ex_out @ [''README.md''])
       = Some (Rendered (BuiltinTemplate ''README.md'')
                 \<lparr>rc_config = Some ex_config, rc_projectInfo = Some ex_project,
                  rc_endpoints = Some [ex_get_health, ex_get_users], rc_endpoint = None\<rparr>)
   \<and> map_of (writtenContents (fs_calls (generate ex_config no_template_files ex_project ex_out False)))
         (ex_out @ [''docs'', ''API.md''])
       = Some (Rendered (BuiltinTemplate ''docs.md'')
                 \<lparr>rc_config = Some ex_config, rc_projectInfo = Some ex_project,
                  rc_endpoints = Some [ex_get_health, ex_get_users], rc_endpoint = None\<rparr>)
   \<and> map_of (writtenContents (fs_calls (generate ex_config no_template_files ex_project ex_out False)))
         (ex_out @ [''tests'', ''tools'', ''getHealth.test.ts''])
       = Some (Rendered (BuiltinTemplate ''tool-test.ts'')
                 \<lparr>rc_config = Some ex_config, rc_projectInfo = None,
                  rc_endpoints = None, rc_endpoint = Some ex_get_health\<rparr>)"
proof -
  have excl: "excludeEndpoints ex_config = Some [endpointKey ex_get_health]"
    by code_simp
  have files: "writtenFiles (fs_calls (generate ex_config no_template_files ex_project ex_out False))
       = map ((@) ex_out)
           [[''src'', ''index.ts''], [''package.json''], [''tsconfig.json''],
            [''src'', ''tools'', ''getUsers.ts''], [''src'', ''tools'', ''index.ts''],
            [''.env.example''], [''README.md''], [''tests'', ''setup.ts''],
            [''tests'', ''tools'', ''getHealth.test.ts''],
            [''tests'', ''tools'', ''getUsers.test.ts''], [''docs'', ''API.md'']]"
    by code_simp
  have index: "map_of (writtenContents (fs_calls (generate ex_config no_template_files ex_project ex_out False)))
         (ex_out @ [''src'', ''tools'', ''index.ts''])
       = Some (Rendered (BuiltinTemplate ''tools-index.ts'')
                 \<lparr>rc_config = Some ex_config, rc_projectInfo = None,
                  rc_endpoints = Some [ex_get_users], rc_endpoint = None\<rparr>)"
    by code_simp
  have server: "map_of (writtenContents (fs_calls (generate ex_config no_template_files ex_project ex_out False)))
         (ex_out @ [''src'', ''index.ts''])
       = Some (Rendered (BuiltinTemplate ''server.ts'')
                 \<lparr>rc_config = Some ex_config, rc_projectInfo = Some ex_project,
                  rc_endpoints = Some [ex_get_health, ex_get_users], rc_endpoint = None\<rparr>)"
    by code_simp
  have readme: "map_of (writtenContents (fs_calls (generate ex_config no_template_files ex_project ex_out False)))
         (ex_out @ [''README.md''])
       = Some (Rendered (BuiltinTemplate ''README.md'')
                 \<lparr>rc_config = Some ex_config, rc_projectInfo = Some ex_project,
                  rc_endpoints = Some [ex_get_health, ex_get_users], rc_endpoint = None\<rparr>)"
    by code_simp
  have docs: "map_of (writtenContents (fs_calls (generate ex_config no_template_files ex_project ex_out False)))
         (ex_out @ [''docs'', ''API.md''])
       = Some (Rendered (BuiltinTemplate ''docs.md'')
                 \<lparr>rc_config = Some ex_config, rc_projectInfo = Some ex_project,
                  rc_endpoints = Some [ex_get_health, ex_get_users], rc_endpoint = None\<rparr>)"
    by code_simp
  have test: "map_of (writtenContents (fs_calls (generate ex_config no_template_files ex_project ex_out False)))
         (ex_out @ [''tests'', ''tools'', ''getHealth.test.ts''])
       = Some (Rendered (BuiltinTemplate ''tool-test.ts'')
                 \<lparr>rc_config = Some ex_config, rc_projectInfo = None,
                  rc_endpoints = None, rc_endpoint = Some ex_get_health\<rparr>)"
    by code_simp
  from excl files index server readme docs test show ?thesis by blast
qed

section \<open>Method inference from the matched text\<close>

lemma str_includes_sublist: "str_includes s sub = sublist sub s"
  by (induction s) (simp_all add: sublist_Cons_right)

lemma extractMethodFromMatch_nonempty: "extractMethodFromMatch matchStr \<noteq> []"
  by (simp add: extractMethodFromMatch_def http_methods_def Let_def)

lemma orGET_extractMethodFromMatch:
  "orGET (extractMethodFromMatch matchStr) = extractMethodFromMatch matchStr"
  by (simp add: orGET_def extractMethodFromMatch_nonempty)

text \<open>
  Claim C9. In the JavaScript (Express and NestJS patterns), Go, PHP and Ruby extractors
  of the rest-api analyzer the method recorded for a match is the first entry of
  \<open>GET, POST, PUT, PATCH, DELETE, OPTIONS, HEAD\<close> that occurs in the upper-cased text of
  the whole match, \<open>GET\<close> when none does. The matched text takes in the path literal, so
  the route \<open>app.delete('/budgets', h)\<close>, and its Go, PHP and Ruby counterparts, are
  recorded with the method \<open>GET\<close>, found inside \<open>/BUDGETS\<close>.
\<close>

theorem extractMethodFromMatch_reads_path_literal:
  "extractMethodFromMatch matchStr
     = (case List.find (\<lambda>method. sublist method (toUpperCase matchStr))
              [''GET'', ''POST'', ''PUT'', ''PATCH'', ''DELETE'', ''OPTIONS'', ''HEAD''] of
          Some method \<Rightarrow> method
        | None \<Rightarrow> ''GET'')
   \<and> map e_method (js_match_body content filename 0 m) = [extractMethodFromMatch (m_text m)]
   \<and> map e_method (js_match_body content filename 1 m) = [extractMethodFromMatch (m_text m)]
   \<and> map e_method (go_match_body filename index m) = [extractMethodFromMatch (m_text m)]
   \<and> map e_method (php_match_body filename index m) = [extractMethodFromMatch (m_text m)]
   \<and> map e_method (ruby_match_body filename index m) = [extractMethodFromMatch (m_text m)]
   \<and> map m_text (execAll False (snd (js_patterns ! 0)) ex_delete_js)
       = [''app.delete('' @ sq @ ''/budgets'' @ sq]
   \<and> map (\<lambda>e. (e_method e, e_path e)) (extractJavaScriptEndpoints ex_delete_js ''routes/budgets.js'')
       = [(''GET'', ''/budgets'')]
   \<and> map (\<lambda>e. (e_method e, e_path e)) (extractGoEndpoints ex_delete_go ''main.go'')
       = [(''GET'', ''/budgets'')]
   \<and> map (\<lambda>e. (e_method e, e_path e)) (extractPHPEndpoints ex_delete_php ''routes.php'')
       = [(''GET'', ''/budgets'')]
   \<and> map (\<lambda>e. (e_method e, e_path e)) (extractRubyEndpoints ex_delete_ruby ''routes.rb'')
       = [(''GET'', ''/budgets'')]"
proof -
  have first: "extractMethodFromMatch matchStr
     = (case List.find (\<lambda>method. sublist method (toUpperCase matchStr))
              [''GET'', ''POST'', ''PUT'', ''PATCH'', ''DELETE'', ''OPTIONS'', ''HEAD''] of
          Some method \<Rightarrow> method
        | None \<Rightarrow> ''GET'')"
    by (simp only: extractMethodFromMatch_def http_methods_def Let_def str_includes_sublist)
  have js0: "map e_method (js_match_body content filename 0 m) = [extractMethodFromMatch (m_text m)]"
    by (simp add: js_match_body_def mkEndpoint_def orGET_extractMethodFromMatch Let_def)
  have js1: "map e_method (js_match_body content filename 1 m) = [extractMethodFromMatch (m_text m)]"
    by (simp add: js_match_body_def mkEndpoint_def orGET_extractMethodFromMatch Let_def)
  have go: "map e_method (go_match_body filename index m) = [extractMethodFromMatch (m_text m)]"
    by (simp add: go_match_body_def mkEndpoint_def orGET_extractMethodFromMatch Let_def)
  have php: "map e_method (php_match_body filename index m) = [extractMethodFromMatch (m_text m)]"
    by (simp add: php_match_body_def mkEndpoint_def orGET_extractMethodFromMatch Let_def)
  have ruby: "map e_method (ruby_match_body filename index m) = [extractMethodFromMatch (m_text m)]"
    by (simp add: ruby_match_body_def mkEndpoint_def orGET_extractMethodFromMatch Let_def)
  have matched: "map m_text (execAll False (snd (js_patterns ! 0)) ex_delete_js)
       = [''app.delete('' @ sq @ ''/budgets'' @ sq]"
    by code_simp
  have ex_js: "map (\<lambda>e. (e_method e, e_path e))
         (extractJavaScriptEndpoints ex_delete_js ''routes/budgets.js'') = [(''GET'', ''/budgets'')]"
    by code_simp
  have ex_go: "map (\<lambda>e. (e_method e, e_path e)) (extractGoEndpoints ex_delete_go ''main.go'')
       = [(''GET'', ''/budgets'')]"
    by code_simp
  have ex_php: "map (\<lambda>e. (e_method e, e_path e)) (extractPHPEndpoints ex_delete_php ''routes.php'')
       = [(''GET'', ''/budgets'')]"
    by code_simp
  have ex_ruby: "map (\<lambda>e. (e_method e, e_path e)) (extractRubyEndpoints ex_delete_ruby ''routes.rb'')
       = [(''GET'', ''/budgets'')]"
    by code_simp
  from first js0 js1 go php ruby matched ex_js ex_go ex_php ex_ruby show ?thesis by blast
qed

section \<open>Next.js routes\<close>

text \<open>
  Claim C5, evaluated where it fails. The file \<open>pages/api/orders/[id].js\<close> holds a
  handler that checks \<open>req.method\<close> against \<open>'GET'\<close> and \<open>'PUT'\<close>. The path comes from
  the file name, with \<open>[id]\<close> turned into \<open>{id}\<close>, as the claim says. The two checks are
  found, but no method name is read out of either, since the pattern applied to a check
  asks for a backslash after the quote; the method list is empty and the default
  \<open>GET, POST\<close> is taken. The endpoints are \<open>GET\<close> and \<open>POST\<close>, not \<open>GET\<close> and \<open>PUT\<close>.
\<close>

theorem nextjs_handler_methods_default_to_get_post:
  "inferNextJsApiPath ''pages/api/orders/[id].js'' = ''/api/orders/{id}''
   \<and> map m_text (execAll True methodCheckRx ex_next_src)
       = [''req.method === '' @ sq @ ''GET'' @ sq, ''req.method === '' @ sq @ ''PUT'' @ sq]
   \<and> matchFirst True quotedWordRx (''req.method === '' @ sq @ ''PUT'' @ sq) = None
   \<and> extractMethodsFromNextJsHandler ex_next_src = [''GET'', ''POST'']
   \<and> map (\<lambda>e. (e_method e, e_path e))
         (extractJavaScriptEndpoints ex_next_src ''pages/api/orders/[id].js'')
       = [(''GET'', ''/api/orders/{id}''), (''POST'', ''/api/orders/{id}'')]"
proof -
  have p: "inferNextJsApiPath ''pages/api/orders/[id].js'' = ''/api/orders/{id}''"
    by code_simp
  have checks: "map m_text (execAll True methodCheckRx ex_next_src)
       = [''req.method === '' @ sq @ ''GET'' @ sq, ''req.method === '' @ sq @ ''PUT'' @ sq]"
    by code_simp
  have nomatch: "matchFirst True quotedWordRx (''req.method === '' @ sq @ ''PUT'' @ sq) = None"
    by code_simp
  have methods: "extractMethodsFromNextJsHandler ex_next_src = [''GET'', ''POST'']"
    by code_simp
  have eps: "map (\<lambda>e. (e_method e, e_path e))
         (extractJavaScriptEndpoints ex_next_src ''pages/api/orders/[id].js'')
       = [(''GET'', ''/api/orders/{id}''), (''POST'', ''/api/orders/{id}'')]"
    by code_simp
  from p checks nomatch methods eps show ?thesis by blast
qed

section \<open>Query parameters in the nodejs analyzer\<close>

text \<open>
  Claim C6, evaluated where it fails. The route handler of
  \<open>app.get('/users', (req, res) => { res.json(find(req.query.page)); })\<close> dereferences
  \<open>req.query.page\<close> a few characters after the match, yet the endpoint gets no
  parameter: both query patterns ask for a backslash before the key, which the text
  \<open>req.query.page\<close> does not have. With the backslashes written into the text the key
  is found.
\<close>

theorem query_parameter_not_inferred:
  "map m_index (execAll False (snd (allPatterns ! 0)) ex_query_src) = [0]
   \<and> execAll False (queryPatterns ! 0) ex_query_src = []
   \<and> execAll False (queryPatterns ! 1) ex_query_src = []
   \<and> extractParameters ''/users'' ex_query_src 0 = []
   \<and> parseEndpointsFromFile ex_query_src ''app.js''
       = [mkEndpoint ''/users'' ''GET'' ''Endpoint from app.js'' []]
   \<and> map p_name (extractParameters ''/users''
         (''req'' @ [CHR 0x5C] @ ''.query'' @ [CHR 0x5C] @ ''.page'') 0) = [''page'']"
proof -
  have found: "map m_index (execAll False (snd (allPatterns ! 0)) ex_query_src) = [0]"
    by code_simp
  have q0: "execAll False (queryPatterns ! 0) ex_query_src = []"
    by code_simp
  have q1: "execAll False (queryPatterns ! 1) ex_query_src = []"
    by code_simp
  have params: "extractParameters ''/users'' ex_query_src 0 = []"
    by code_simp
  have eps: "parseEndpointsFromFile ex_query_src ''app.js''
       = [mkEndpoint ''/users'' ''GET'' ''Endpoint from app.js'' []]"
    by code_simp
  have escaped: "map p_name (extractParameters ''/users''
         (''req'' @ [CHR 0x5C] @ ''.query'' @ [CHR 0x5C] @ ''.page'') 0) = [''page'']"
    by code_simp
  from found q0 q1 params eps escaped show ?thesis by blast
qed

section \<open>OpenAPI specifications in YAML\<close>

lemma basename_nonempty_witness:
  assumes "basename f \<noteq> []"
  shows "\<exists>x \<in> set (rev f). \<not> (x = CHR ''/'')"
proof (rule ccontr)
  assume "\<not> (\<exists>x \<in> set (rev f). \<not> (x = CHR ''/''))"
  then have "\<forall>x \<in> set (rev f). x = CHR ''/''" by blast
  then have "dropWhile (\<lambda>c. c = CHR ''/'') (rev f) = []"
    by (simp only: dropWhile_eq_Nil_conv)
  then have "basename f = []" by (simp only: basename_def takeWhile.simps rev.simps)
  with assms show False by contradiction
qed

lemma basename_joinPath:
  assumes "basename f \<noteq> []"
  shows "basename (joinPath p f) = basename f"
proof -
  let ?r = "dropWhile (\<lambda>c. c = CHR ''/'') (rev f)"
  from basename_nonempty_witness [OF assms]
  obtain x where x: "x \<in> set (rev f)" "\<not> (x = CHR ''/'')" by blast
  have r: "rev (joinPath p f) = rev f @ (CHR ''/'' # rev p)"
    by (simp only: joinPath_def rev_append rev.simps append.simps append_assoc)
  have d: "dropWhile (\<lambda>c. c = CHR ''/'') (rev (joinPath p f)) = ?r @ (CHR ''/'' # rev p)"
    unfolding r using x by (rule dropWhile_append1)
  have t: "takeWhile (\<lambda>c. c \<noteq> CHR ''/'') (?r @ (CHR ''/'' # rev p)) = takeWhile (\<lambda>c. c \<noteq> CHR ''/'') ?r"
    by (rule takeWhile_tail) simp
  show ?thesis by (simp only: basename_def d t)
qed

lemma extname_joinPath:
  assumes "extname f \<noteq> []"
  shows "extname (joinPath p f) = extname f"
proof -
  have "basename f \<noteq> []"
  proof
    assume "basename f = []"
    then have "extname f = []" by (simp add: extname_def)
    with assms show False by contradiction
  qed
  then have "basename (joinPath p f) = basename f" by (rule basename_joinPath)
  then show ?thesis by (simp only: extname_def)
qed

lemma yaml_parse:
  assumes ext: "toLowerCase (extname specFile) = ''.yaml'' \<or> toLowerCase (extname specFile) = ''.yml''"
  shows "parseOpenAPISpec readFile parseJSON (joinPath projectPath specFile)
       = (case readFile (joinPath projectPath specFile) of
              None \<Rightarrow> Inl (ReadError (joinPath projectPath specFile))
            | Some content \<Rightarrow> Inl YAMLParsingNotImplemented)"
proof -
  from ext have "toLowerCase (extname specFile) \<noteq> []" by auto
  then have "extname specFile \<noteq> []" by (simp only: toLowerCase_def map_is_Nil_conv not_False_eq_True)
  then have e: "extname (joinPath projectPath specFile) = extname specFile"
    by (rule extname_joinPath)
  from ext have nj: "toLowerCase (extname specFile) \<noteq> ''.json''" by auto
  show ?thesis
    unfolding parseOpenAPISpec_def Let_def e
    using ext nj by (simp split: option.splits)
qed

lemma openapi_needs_json:
  assumes "openapi_analyze env projectPath = Inr info"
  shows "\<exists>specFile others. env_openApiFiles env = specFile # others
           \<and> toLowerCase (extname (joinPath projectPath specFile)) = ''.json''"
proof (cases "env_openApiFiles env")
  case Nil
  with assms show ?thesis by (simp add: openapi_analyze_def)
next
  case (Cons specFile others)
  have "toLowerCase (extname (joinPath projectPath specFile)) = ''.json''"
  proof (rule ccontr)
    assume n: "toLowerCase (extname (joinPath projectPath specFile)) \<noteq> ''.json''"
    have "\<exists>err. parseOpenAPISpec (env_readFile env) (env_parseJSON env) (joinPath projectPath specFile) = Inl err"
      unfolding parseOpenAPISpec_def Let_def using n by (simp split: option.splits)
    then obtain err where "parseOpenAPISpec (env_readFile env) (env_parseJSON env) (joinPath projectPath specFile) = Inl err" ..
    then have "openapi_analyze env projectPath = Inl err"
      unfolding openapi_analyze_def Cons list.case by simp
    with assms show False by simp
  qed
  with Cons show ?thesis by blast
qed

text \<open>
  Claim C10. Let the project directory exist and let the first file the OpenAPI glob
  enumerates (the only one, when there is one) have the extension \<open>.yaml\<close> or \<open>.yml\<close>,
  in any case of letters. Then type detection answers \<open>openapi\<close>, and analysis, with the
  type detected or given as \<open>openapi\<close>, never returns a ProjectInfo: it fails with
  \<open>YAML parsing not implemented. Please convert to JSON format.\<close> when the file can be
  read, and with the read error otherwise. An analysis in openapi mode that does return
  a ProjectInfo has read a file whose extension is \<open>.json\<close>.
\<close>

theorem yaml_spec_detected_but_analysis_fails:
  assumes ex: "env_exists env"
    and files: "env_openApiFiles env = specFile # others"
    and ext: "toLowerCase (extname specFile) = ''.yaml'' \<or> toLowerCase (extname specFile) = ''.yml''"
  shows "detectProjectType env = ''openapi''
     \<and> (\<exists>err. analyze env projectPath ''auto'' = Inl err)
     \<and> (env_readFile env (joinPath projectPath specFile) \<noteq> None \<longrightarrow>
          analyze env projectPath ''auto'' = Inl YAMLParsingNotImplemented)
     \<and> (env_readFile env (joinPath projectPath specFile) = None \<longrightarrow>
          analyze env projectPath ''auto'' = Inl (ReadError (joinPath projectPath specFile)))
     \<and> analyze env projectPath ''openapi'' = analyze env projectPath ''auto''
     \<and> error_message YAMLParsingNotImplemented
         = ''YAML parsing not implemented. Please convert to JSON format.''
     \<and> (\<forall>env' path info. analyze env' path ''openapi'' = Inr info \<longrightarrow>
          (\<exists>file files. env_openApiFiles env' = file # files
             \<and> toLowerCase (extname (joinPath path file)) = ''.json''))"
proof -
  have det: "detectProjectType env = ''openapi''"
    using files by (simp add: detectProjectType_def)
  have o: "openapi_analyze env projectPath
       = (case env_readFile env (joinPath projectPath specFile) of
              None \<Rightarrow> Inl (ReadError (joinPath projectPath specFile))
            | Some content \<Rightarrow> Inl YAMLParsingNotImplemented)"
    unfolding openapi_analyze_def files list.case yaml_parse [OF ext]
    by (simp split: option.splits)
  have a: "analyze env projectPath ''auto'' = openapi_analyze env projectPath"
    unfolding analyze_def Let_def det using ex by simp
  have a2: "analyze env projectPath ''openapi'' = openapi_analyze env projectPath"
    unfolding analyze_def Let_def using ex by simp
  have j: "\<forall>env' path info. analyze env' path ''openapi'' = Inr info \<longrightarrow>
          (\<exists>file files. env_openApiFiles env' = file # files
             \<and> toLowerCase (extname (joinPath path file)) = ''.json'')"
  proof (intro allI impI)
    fix env' path info
    assume r: "analyze env' path ''openapi'' = Inr info"
    then have "env_exists env'" by (simp add: analyze_def split: if_splits)
    then have "analyze env' path ''openapi'' = openapi_analyze env' path"
      unfolding analyze_def Let_def by simp
    with r have "openapi_analyze env' path = Inr info" by simp
    then show "\<exists>file files. env_openApiFiles env' = file # files
             \<and> toLowerCase (extname (joinPath path file)) = ''.json''"
      by (rule openapi_needs_json)
  qed
  have first: "detectProjectType env = ''openapi''
     \<and> (\<exists>err. analyze env projectPath ''auto'' = Inl err)
     \<and> (env_readFile env (joinPath projectPath specFile) \<noteq> None \<longrightarrow>
          analyze env projectPath ''auto'' = Inl YAMLParsingNotImplemented)
     \<and> (env_readFile env (joinPath projectPath specFile) = None \<longrightarrow>
          analyze env projectPath ''auto'' = Inl (ReadError (joinPath projectPath specFile)))
     \<and> analyze env projectPath ''openapi'' = analyze env projectPath ''auto''
     \<and> error_message YAMLParsingNotImplemented
         = ''YAML parsing not implemented. Please convert to JSON format.''"
    unfolding a a2 o using det by (simp split: option.splits)
  from first j show ?thesis by blast
qed

theorem yaml_spec_detected_but_analysis_fails_witness:
  "detectProjectType ex_yaml_env = ''openapi''
   \<and> analyze ex_yaml_env ''/work/api'' ''auto'' = Inl YAMLParsingNotImplemented
   \<and> analyze ex_yaml_env ''/work/api'' ''openapi'' = Inl YAMLParsingNotImplemented
   \<and> (\<exists>info. analyze ex_json_env ''/work/api'' ''openapi'' = Inr info)
   \<and> toLowerCase (extname (joinPath ''/work/api'' ''openapi.json'')) = ''.json''"
proof -
  have ex: "env_exists ex_yaml_env" by (simp add: ex_yaml_env_def)
  have files: "env_openApiFiles ex_yaml_env = ''openapi.yaml'' # []" by (simp add: ex_yaml_env_def)
  have ext: "toLowerCase (extname ''openapi.yaml'') = ''.yaml''
      \<or> toLowerCase (extname ''openapi.yaml'') = ''.yml''"
    by code_simp
  have readable: "env_readFile ex_yaml_env (joinPath ''/work/api'' ''openapi.yaml'') \<noteq> None"
    by (simp add: ex_yaml_env_def joinPath_def)
  have json: "analyze ex_json_env ''/work/api'' ''openapi''
      = Inr \<lparr>pi_name = ''Shop'', pi_type = ''openapi'', pi_rootPath = ''/work/api'',
             pi_endpoints = [\<lparr>e_path = ''/orders'', e_method = ''GET'',
                              e_description = Some ''List orders'', e_parameters = []\<rparr>],
             pi_baseUrl = None, pi_version = Some ''1.0.0'', pi_description = None\<rparr>"
    by code_simp
  have jfiles: "env_openApiFiles ex_json_env = [''openapi.json'']" by (simp add: ex_json_env_def)
  note t = yaml_spec_detected_but_analysis_fails [OF ex files ext, of "''/work/api''"]
  from t have d: "detectProjectType ex_yaml_env = ''openapi''"
    by (rule conjunct1)
  from t have i: "env_readFile ex_yaml_env (joinPath ''/work/api'' ''openapi.yaml'') \<noteq> None \<longrightarrow>
      analyze ex_yaml_env ''/work/api'' ''auto'' = Inl YAMLParsingNotImplemented"
    by (elim conjE)
  from i readable have a: "analyze ex_yaml_env ''/work/api'' ''auto'' = Inl YAMLParsingNotImplemented"
    by (rule mp)
  from t have e: "analyze ex_yaml_env ''/work/api'' ''openapi'' = analyze ex_yaml_env ''/work/api'' ''auto''"
    by (elim conjE)
  from t have j: "\<forall>env' path info. analyze env' path ''openapi'' = Inr info \<longrightarrow>
          (\<exists>file files. env_openApiFiles env' = file # files
             \<and> toLowerCase (extname (joinPath path file)) = ''.json'')"
    by (elim conjE)
  from j [rule_format, OF json] obtain sf sfs
    where f: "env_openApiFiles ex_json_env = sf # sfs"
      and x: "toLowerCase (extname (joinPath ''/work/api'' sf)) = ''.json''"
    by blast
  from f jfiles have "sf = ''openapi.json''" by (simp only: list.inject)
  with x have k: "toLowerCase (extname (joinPath ''/work/api'' ''openapi.json'')) = ''.json''"
    by (simp only:)
  from json have ex_info: "\<exists>info. analyze ex_json_env ''/work/api'' ''openapi'' = Inr info"
    by (rule exI)
  from a e have a2: "analyze ex_yaml_env ''/work/api'' ''openapi'' = Inl YAMLParsingNotImplemented"
    by (simp only:)
  from d a a2 ex_info k show ?thesis by (intro conjI)
qed

section \<open>Django REST Framework view sets\<close>

lemma orderViewSet_basePath:
  "''/'' @ toLowerCase (replaceFirst True viewSuffixRx (\<lambda>m. []) ''OrderViewSet'') @ ''/'' = ''/order/''"
  by code_simp

lemma orderViewSet_crud:
  "map (\<lambda>(method, path, description).
          mkEndpoint path method (''DRF '' @ ''OrderViewSet'' @ '' - '' @ description)
            (extractParametersFromPath path))
       (crudEndpoints ''/order/'') = orderViewSetEndpoints"
  by code_simp

text \<open>
  Claim C8. Whatever the file, a match of the class pattern whose first group is
  \<open>OrderViewSet\<close> contributes exactly six endpoints: \<open>GET\<close> and \<open>POST\<close> at \<open>/order/\<close>, and
  \<open>GET\<close>, \<open>PUT\<close>, \<open>PATCH\<close>, \<open>DELETE\<close> at \<open>/order/{id}/\<close>, the base path being the class
  name without \<open>ViewSet\<close>, in lower case. A file with that class declaration and no other
  route yields these six endpoints and no more.
\<close>

theorem drf_viewset_yields_six_endpoints:
  assumes "cap m 1 = Some ''OrderViewSet''"
  shows "py_match_body filename 3 m = orderViewSetEndpoints
     \<and> map (\<lambda>e. (e_method e, e_path e)) (py_match_body filename 3 m)
         = [(''GET'', ''/order/''), (''POST'', ''/order/''), (''GET'', ''/order/{id}/''),
            (''PUT'', ''/order/{id}/''), (''PATCH'', ''/order/{id}/''), (''DELETE'', ''/order/{id}/'')]
     \<and> map (\<lambda>r. (m_index r, cap r 1)) (execAll False (snd (py_patterns ! 3)) ex_viewset_src)
         = [(0, Some ''OrderViewSet'')]
     \<and> extractPythonEndpoints ex_viewset_src ''views.py'' = orderViewSetEndpoints"
proof -
  have g: "group_text m 1 = ''OrderViewSet''"
    using assms by (simp only: group_text_def option.case)
  have body: "py_match_body filename 3 m = orderViewSetEndpoints"
    unfolding py_match_body_def Let_def g orderViewSet_basePath orderViewSet_crud
    by simp
  have pairs: "map (\<lambda>e. (e_method e, e_path e)) orderViewSetEndpoints
         = [(''GET'', ''/order/''), (''POST'', ''/order/''), (''GET'', ''/order/{id}/''),
            (''PUT'', ''/order/{id}/''), (''PATCH'', ''/order/{id}/''), (''DELETE'', ''/order/{id}/'')]"
    by code_simp
  have single: "map (\<lambda>r. (m_index r, cap r 1)) (execAll False (snd (py_patterns ! 3)) ex_viewset_src)
         = [(0, Some ''OrderViewSet'')]"
    by code_simp
  have whole: "extractPythonEndpoints ex_viewset_src ''views.py'' = orderViewSetEndpoints"
    by code_simp
  from body pairs single whole show ?thesis by (simp only: simp_thms)
qed

theorem drf_viewset_yields_six_endpoints_witness:
  "cap ex_viewset_match 1 = Some ''OrderViewSet''
   \<and> py_match_body ''orders/views.py'' 3 ex_viewset_match = orderViewSetEndpoints
   \<and> length orderViewSetEndpoints = 6"
proof -
  have c: "cap ex_viewset_match 1 = Some ''OrderViewSet''"
    by (simp add: cap_def ex_viewset_match_def)
  from drf_viewset_yields_six_endpoints [OF c, of "''orders/views.py''"]
  have b: "py_match_body ''orders/views.py'' 3 ex_viewset_match = orderViewSetEndpoints"
    by (rule conjunct1)
  have l: "length orderViewSetEndpoints = 6"
    by (simp add: orderViewSetEndpoints_def)
  from c b l show ?thesis by (intro conjI)
qed

section \<open>Express-style path parameters\<close>













section \<open>Derived identifiers\<close>









end
